theory Spec2Isabelle
  imports Complex_Main
begin

section \<open>Numbers, errors and the functions of Python's math module\<close>

text \<open>
  The simulator computes with Python floats. They are idealised here as real numbers:
  rounding, overflow, NaN, infinite values of fields and signed zeros are outside the
  model. What is kept of Python's arithmetic is that the division operator raises
  \<open>ZeroDivisionError\<close> on a zero divisor, while \<open>math.hypot\<close>, \<open>math.atan2\<close>,
  \<open>math.cos\<close> and \<open>math.sin\<close> are total on finite numbers; in particular
  \<open>math.atan2(0, 0)\<close> is \<open>0\<close>.
\<close>

text \<open>
  \<open>ZeroDivisionError\<close> is the only exception the code of a tick can raise.
  \<open>ValueError\<close> is what \<open>math.cos\<close> and \<open>math.sin\<close> raise for an infinite argument;
  the constructor of \<open>2D_Collisions.py\<close> calls them on its angle argument.
  \<open>ValidationError\<close> is the error that the specification names for construction; no
  function of the source raises it.
\<close>

datatype error = ZeroDivisionError | ValueError | ValidationError

definition hypot :: "real \<Rightarrow> real \<Rightarrow> real" where
  "hypot a b = sqrt (a\<^sup>2 + b\<^sup>2)"

text \<open>
  \<open>atan2 b a\<close> is \<open>math.atan2(b, a)\<close>: the angle in \<open>(-\<pi>, \<pi>]\<close> of the point \<open>(a, b)\<close>.
  Python tells a negative zero from a positive one here: \<open>math.atan2(0.0, -0.0)\<close> is
  \<open>\<pi>\<close> and \<open>math.atan2(-0.0, a)\<close> is \<open>-\<pi>\<close> for negative \<open>a\<close>, where this function
  gives \<open>0\<close> and \<open>\<pi>\<close>. So the angle that the code stores for a velocity with a zero
  component can differ from the model's: by \<open>\<pi>\<close> when the speed is zero, by \<open>2 * \<pi>\<close>
  otherwise. Positions, speeds and velocity components are the same either way. The
  theorems below speak of a stored angle only at inputs where the code and the model
  store the same one.
\<close>

definition atan2 :: "real \<Rightarrow> real \<Rightarrow> real" where
  "atan2 b a =
     (if 0 < a then arctan (b / a)
      else if a < 0 then (if 0 \<le> b then arctan (b / a) + pi else arctan (b / a) - pi)
      else if 0 < b then pi / 2
      else if b < 0 then - (pi / 2)
      else 0)"

section \<open>2D\_Collisions.py\<close>

subsection \<open>Constants\<close>

definition ELASTICITY_COEFFICIENT :: real where
  "ELASTICITY_COEFFICIENT = 8 / 10"

definition DRAG_COEFFICIENT :: real where
  "DRAG_COEFFICIENT = 9999 / 10000"

definition MOUSE_FLING_COEFFICIENT :: real where
  "MOUSE_FLING_COEFFICIENT = 1 / 10"

subsection \<open>class Vector\<close>

record Vector =
  x_comp :: real
  y_comp :: real

definition magnitude :: "Vector \<Rightarrow> real" where
  "magnitude v = hypot (x_comp v) (y_comp v)"

text \<open>\<open>Vector.unit\<close> divides both components by the magnitude, with no test before.\<close>

definition unit :: "Vector \<Rightarrow> error + Vector" where
  "unit v =
     (if magnitude v = 0 then Inl ZeroDivisionError
      else Inr \<lparr>x_comp = x_comp v / magnitude v, y_comp = y_comp v / magnitude v\<rparr>)"

text \<open>\<open>Vector.__mul__\<close> with a Vector on the right: the dot product.\<close>

definition mul_vec :: "Vector \<Rightarrow> Vector \<Rightarrow> real" where
  "mul_vec v right = x_comp v * x_comp right + y_comp v * y_comp right"

text \<open>\<open>Vector.__mul__\<close> with a number on the right: scaling.\<close>

definition mul_num :: "Vector \<Rightarrow> real \<Rightarrow> Vector" where
  "mul_num v right = \<lparr>x_comp = x_comp v * right, y_comp = y_comp v * right\<rparr>"

definition add_vec :: "Vector \<Rightarrow> Vector \<Rightarrow> Vector" where
  "add_vec v right = \<lparr>x_comp = x_comp v + x_comp right, y_comp = y_comp v + y_comp right\<rparr>"

subsection \<open>class Particle\<close>

record Particle =
  p_x :: real
  p_y :: real
  p_color :: "int \<times> int \<times> int"
  p_mass :: real
  p_radius :: real
  p_speed_x :: real
  p_speed_y :: real
  p_speed :: real
  p_angle :: real

text \<open>
  The angle argument of the constructor: a finite number or one of the two infinities.
  (A NaN angle, and a non-finite position, mass, radius or speed, would make a particle
  with non-finite fields; those are outside the model.)
\<close>

datatype angle_arg = Finite real | PosInf | NegInf

text \<open>
  \<open>Particle.__init__\<close> stores its arguments and derives the speed components with
  \<open>math.cos(angle)\<close> and \<open>math.sin(angle)\<close>. It tests nothing and has no raise of its
  own; \<open>math.cos\<close> raises \<open>ValueError\<close> when the angle is infinite.
\<close>

fun Particle_init ::
  "real \<times> real \<Rightarrow> real \<Rightarrow> real \<Rightarrow> real \<Rightarrow> angle_arg \<Rightarrow> int \<times> int \<times> int \<Rightarrow> error + Particle" where
  "Particle_init position mass radius speed (Finite angle) color =
     Inr \<lparr>p_x = fst position, p_y = snd position, p_color = color, p_mass = mass,
          p_radius = radius, p_speed_x = cos angle * speed, p_speed_y = sin angle * speed,
          p_speed = speed, p_angle = angle\<rparr>"
| "Particle_init position mass radius speed PosInf color = Inl ValueError"
| "Particle_init position mass radius speed NegInf color = Inl ValueError"

text \<open>
  \<open>_recalculate_speed_components\<close>: the coefficient is optional and is tested for
  truth, so a coefficient of zero is skipped like a missing one.
\<close>

definition recalculate_speed_components :: "Particle \<Rightarrow> real \<Rightarrow> real option \<Rightarrow> Particle" where
  "recalculate_speed_components p new_angle speed_coefficient =
     (let s = (case speed_coefficient of
                 None \<Rightarrow> p_speed p
               | Some k \<Rightarrow> if k \<noteq> 0 then p_speed p * k else p_speed p)
      in p\<lparr>p_speed := s, p_angle := new_angle,
            p_speed_x := cos new_angle * s, p_speed_y := sin new_angle * s\<rparr>)"

definition apply_drag :: "real \<Rightarrow> Particle \<Rightarrow> Particle" where
  "apply_drag dc p = recalculate_speed_components p (p_angle p) (Some dc)"

definition apply_elasticity :: "real \<Rightarrow> Particle \<Rightarrow> Particle" where
  "apply_elasticity ec p = recalculate_speed_components p (p_angle p) (Some ec)"

text \<open>
  \<open>_bounce\<close>: one chain of \<open>if\<close>/\<open>elif\<close> over top, bottom, left and right, and an
  early return in the last branch; elasticity is applied after the chain.
\<close>

definition bounce :: "real \<Rightarrow> real \<times> real \<Rightarrow> Particle \<Rightarrow> Particle" where
  "bounce ec dims p =
     (let width = fst dims; height = snd dims in
      if p_y p \<le> p_radius p then
        (let q = recalculate_speed_components p (- p_angle p) None
         in apply_elasticity ec (q\<lparr>p_y := p_y q + 2 * (p_radius q - p_y q)\<rparr>))
      else if p_y p \<ge> height - p_radius p then
        (let q = recalculate_speed_components p (- p_angle p) None
         in apply_elasticity ec (q\<lparr>p_y := p_y q - 2 * (p_y q + p_radius q - height)\<rparr>))
      else if p_x p \<le> p_radius p then
        (let q = recalculate_speed_components p (pi - p_angle p) None
         in apply_elasticity ec (q\<lparr>p_x := p_x q + 2 * (p_radius q - p_x q)\<rparr>))
      else if p_x p \<ge> width - p_radius p then
        (let q = recalculate_speed_components p (pi - p_angle p) None
         in apply_elasticity ec (q\<lparr>p_x := p_x q - 2 * (p_x q + p_radius q - width)\<rparr>))
      else p)"

definition move :: "real \<Rightarrow> real \<Rightarrow> real \<times> real \<Rightarrow> Particle \<Rightarrow> Particle" where
  "move ec dc dims p =
     apply_drag dc (bounce ec dims (p\<lparr>p_x := p_x p + p_speed_x p, p_y := p_y p + p_speed_y p\<rparr>))"

definition follow :: "real \<Rightarrow> Particle \<Rightarrow> real \<times> real \<Rightarrow> Particle" where
  "follow fc p mouse_coodinates =
     (let dx = fst mouse_coodinates - p_x p;
          dy = snd mouse_coodinates - p_y p
      in recalculate_speed_components (p\<lparr>p_speed := hypot dx dy\<rparr>) (atan2 dy dx) (Some fc))"

definition overlap_amount :: "Particle \<Rightarrow> Particle \<Rightarrow> real" where
  "overlap_amount p p2 =
     (p_radius p + p_radius p2) - hypot (p_x p - p_x p2) (p_y p - p_y p2)"

definition is_colliding :: "Particle \<Rightarrow> Particle \<Rightarrow> bool" where
  "is_colliding p p2 = (overlap_amount p p2 > 0)"

definition push_apart :: "Particle \<Rightarrow> Particle \<Rightarrow> Particle \<times> Particle" where
  "push_apart p p2 =
     (let dist = overlap_amount p p2;
          collision_angle = atan2 (p_y p - p_y p2) (p_x p - p_x p2)
      in (p\<lparr>p_x := p_x p + cos collision_angle * dist,
             p_y := p_y p + sin collision_angle * dist\<rparr>,
          p2\<lparr>p_x := p_x p2 - cos collision_angle * dist,
              p_y := p_y p2 - sin collision_angle * dist\<rparr>))"

text \<open>
  \<open>collide\<close>. Its divisions are those of the two \<open>unit()\<close> calls and the one by the sum of
  the masses; each of them comes before the first assignment to either particle, so a
  call that raises leaves both particles as they were.
\<close>

definition set_velocity :: "Particle \<Rightarrow> Vector \<Rightarrow> Particle" where
  "set_velocity p final_vec =
     recalculate_speed_components (p\<lparr>p_speed := magnitude final_vec\<rparr>)
       (atan2 (y_comp final_vec) (x_comp final_vec)) None"

definition collide :: "real \<Rightarrow> Particle \<Rightarrow> Particle \<Rightarrow> error + (Particle \<times> Particle)" where
  "collide ec p p2 =
     (if is_colliding p p2 then
        (let n_vec = \<lparr>x_comp = p_x p - p_x p2, y_comp = p_y p - p_y p2\<rparr>;
             t_vec = \<lparr>x_comp = - y_comp n_vec, y_comp = x_comp n_vec\<rparr>
         in case unit n_vec of Inl e \<Rightarrow> Inl e | Inr unit_n_vec \<Rightarrow>
            (case unit t_vec of Inl e \<Rightarrow> Inl e | Inr unit_t_vec \<Rightarrow>
            (let p1_initial_vec = \<lparr>x_comp = p_speed_x p, y_comp = p_speed_y p\<rparr>;
                 p2_initial_vec = \<lparr>x_comp = p_speed_x p2, y_comp = p_speed_y p2\<rparr>;
                 p1_initial_norm_comp = mul_vec p1_initial_vec unit_n_vec;
                 p1_tan_comp = mul_vec p1_initial_vec unit_t_vec;
                 p2_initial_norm_comp = mul_vec p2_initial_vec unit_n_vec;
                 p2_tan_comp = mul_vec p2_initial_vec unit_t_vec
             in if p_mass p + p_mass p2 = 0 then Inl ZeroDivisionError
                else
                  (let p1_final_norm_comp =
                         (p1_initial_norm_comp * (p_mass p - p_mass p2)
                            + 2 * p_mass p2 * p2_initial_norm_comp) / (p_mass p + p_mass p2);
                       p2_final_norm_comp =
                         (p2_initial_norm_comp * (p_mass p2 - p_mass p)
                            + 2 * p_mass p * p1_initial_norm_comp) / (p_mass p + p_mass p2);
                       p1_final_n_vec = mul_num unit_n_vec p1_final_norm_comp;
                       p2_final_n_vec = mul_num unit_n_vec p2_final_norm_comp;
                       p1_final_t_vec = mul_num unit_t_vec p1_tan_comp;
                       p2_final_t_vec = mul_num unit_t_vec p2_tan_comp;
                       p1_final_vec = add_vec p1_final_n_vec p1_final_t_vec;
                       p2_final_vec = add_vec p2_final_n_vec p2_final_t_vec
                   in Inr (push_apart (apply_elasticity ec (set_velocity p p1_final_vec))
                                      (apply_elasticity ec (set_velocity p2 p2_final_vec)))))))
      else Inr (p, p2))"

text \<open>
  The two particles as a call of \<open>collide\<close> leaves them, whether it returns or raises.
\<close>

definition after_collide :: "real \<Rightarrow> Particle \<Rightarrow> Particle \<Rightarrow> Particle \<times> Particle" where
  "after_collide ec p p2 = (case collide ec p p2 of Inl e \<Rightarrow> (p, p2) | Inr r \<Rightarrow> r)"

subsection \<open>class Simulation\<close>

text \<open>
  The selected particle is a reference to one of the particles of the list; it is modelled
  by that particle's index.
\<close>

record Simulation =
  sim_width :: real
  sim_height :: real
  particles :: "Particle list"
  selected_particle :: "nat option"

text \<open>
  The loop of \<open>_select_particle\<close>, from index \<open>i\<close> on: it assigns the first particle that
  contains the point and returns; when it runs off the list the attribute keeps its value.
\<close>

fun select_loop :: "real \<times> real \<Rightarrow> Particle list \<Rightarrow> nat \<Rightarrow> nat option \<Rightarrow> nat option" where
  "select_loop coords [] i sel = sel"
| "select_loop coords (particle # rest) i sel =
     (if hypot (fst coords - p_x particle) (snd coords - p_y particle) \<le> p_radius particle
      then Some i
      else select_loop coords rest (Suc i) sel)"

definition select_particle :: "Simulation \<Rightarrow> real \<times> real \<Rightarrow> Simulation" where
  "select_particle sim coords =
     sim\<lparr>selected_particle := select_loop coords (particles sim) 0 (selected_particle sim)\<rparr>"

definition deselect_particle :: "Simulation \<Rightarrow> Simulation" where
  "deselect_particle sim = sim\<lparr>selected_particle := None\<rparr>"

text \<open>
  The particle list holds references to objects that the loops mutate in place, so the
  loops of \<open>_handle_events\<close> are modelled over the list as a store, by index. The inner
  loop runs particle \<open>index\<close> against the particles of the slice after it.
\<close>

fun collide_rest :: "real \<Rightarrow> nat \<Rightarrow> nat list \<Rightarrow> Particle list \<Rightarrow> error + Particle list" where
  "collide_rest ec index [] ps = Inr ps"
| "collide_rest ec index (j # js) ps =
     (case collide ec (ps ! index) (ps ! j) of
        Inl e \<Rightarrow> Inl e
      | Inr (particle, other_particle) \<Rightarrow>
          collide_rest ec index js (ps[index := particle, j := other_particle]))"

text \<open>The outer loop: each particle moves, then collides with those after it.\<close>

fun particles_loop ::
  "real \<Rightarrow> real \<Rightarrow> real \<times> real \<Rightarrow> nat list \<Rightarrow> Particle list \<Rightarrow> error + Particle list" where
  "particles_loop ec dc dims [] ps = Inr ps"
| "particles_loop ec dc dims (index # rest) ps =
     (case collide_rest ec index [Suc index ..< length ps]
             (ps[index := move ec dc dims (ps ! index)]) of
        Inl e \<Rightarrow> Inl e
      | Inr ps' \<Rightarrow> particles_loop ec dc dims rest ps')"

text \<open>
  \<open>_handle_events\<close>, one tick; the pointer position read from pygame is the argument
  \<open>mouse\<close>.
\<close>

definition handle_events ::
  "real \<Rightarrow> real \<Rightarrow> real \<Rightarrow> Simulation \<Rightarrow> real \<times> real \<Rightarrow> error + Simulation" where
  "handle_events ec dc fc sim mouse =
     (let ps = (case selected_particle sim of
                  None \<Rightarrow> particles sim
                | Some i \<Rightarrow> if i < length (particles sim)
                            then (particles sim)[i := follow fc (particles sim ! i) mouse]
                            else particles sim)
      in case particles_loop ec dc (sim_width sim, sim_height sim) [0 ..< length ps] ps of
           Inl e \<Rightarrow> Inl e
         | Inr ps' \<Rightarrow> Inr (sim\<lparr>particles := ps'\<rparr>))"

section \<open>my\_physics2.py\<close>

text \<open>
  The second script has its own \<open>Particle\<close> and \<open>Simulation\<close> classes, with the velocity
  kept as angle and speed only, no mass, and gravity. Its names carry the suffix \<open>_mp\<close>.
\<close>

subsection \<open>Constants\<close>

definition SPEED_COEFFICIENT_mp :: real where
  "SPEED_COEFFICIENT_mp = 1 / 10"

definition DRAG_COEFFICIENT_mp :: real where
  "DRAG_COEFFICIENT_mp = 9999 / 10000"

definition ELASTICITY_COEFFICIENT_mp :: real where
  "ELASTICITY_COEFFICIENT_mp = 999 / 1000"

definition GRAVITY_mp :: real where
  "GRAVITY_mp = 2 / 1000000"

subsection \<open>class Particle\<close>

record Particle_mp =
  m_x :: real
  m_y :: real
  m_radius :: real
  m_angle :: real
  m_speed :: real

text \<open>
  \<open>Particle.__init__\<close> of this script only stores its arguments; it calls no function
  and cannot raise. (It would store an infinite angle as it is, a non-finite field.)
\<close>

definition Particle_init_mp :: "real \<times> real \<Rightarrow> real \<Rightarrow> real \<Rightarrow> real \<Rightarrow> error + Particle_mp" where
  "Particle_init_mp position radius angle speed =
     Inr \<lparr>m_x = fst position, m_y = snd position, m_radius = radius,
          m_angle = angle, m_speed = speed\<rparr>"

definition apply_elasticity_mp :: "real \<Rightarrow> Particle_mp \<Rightarrow> Particle_mp" where
  "apply_elasticity_mp ec p = p\<lparr>m_speed := m_speed p * ec\<rparr>"

definition apply_drag_mp :: "real \<Rightarrow> Particle_mp \<Rightarrow> Particle_mp" where
  "apply_drag_mp dc p = p\<lparr>m_speed := m_speed p * dc\<rparr>"

definition apply_gravity_mp :: "real \<Rightarrow> Particle_mp \<Rightarrow> Particle_mp" where
  "apply_gravity_mp g p =
     (let particle_x_component = cos (m_angle p) * m_speed p;
          particle_y_component = sin (m_angle p) * m_speed p;
          grav_x_component = cos (- pi / 2) * g;
          grav_y_component = sin (- pi / 2) * g;
          new_x_comp = particle_x_component + grav_x_component;
          new_y_comp = particle_y_component + grav_y_component
      in p\<lparr>m_angle := atan2 new_y_comp new_x_comp, m_speed := hypot new_x_comp new_y_comp\<rparr>)"

definition move_mp :: "real \<Rightarrow> real \<Rightarrow> Particle_mp \<Rightarrow> Particle_mp" where
  "move_mp dc g p =
     (let q = apply_gravity_mp g (apply_drag_mp dc p);
          dx = cos (m_angle q);
          dy = - sin (m_angle q)
      in q\<lparr>m_x := m_x q + dx * m_speed q, m_y := m_y q + dy * m_speed q\<rparr>)"

text \<open>
  \<open>bounce\<close>: an \<open>if\<close>/\<open>elif\<close> for left and right, then a second, separate
  \<open>if\<close>/\<open>elif\<close> for top and bottom.
\<close>

definition bounce_x_mp :: "real \<Rightarrow> real \<Rightarrow> Particle_mp \<Rightarrow> Particle_mp" where
  "bounce_x_mp ec width p =
     (if m_x p \<le> m_radius p then
        apply_elasticity_mp ec
          (p\<lparr>m_angle := pi - m_angle p, m_x := m_x p + 2 * (m_radius p - m_x p)\<rparr>)
      else if m_x p \<ge> width - m_radius p then
        apply_elasticity_mp ec
          (p\<lparr>m_angle := pi - m_angle p, m_x := m_x p - 2 * (m_x p + m_radius p - width)\<rparr>)
      else p)"

definition bounce_y_mp :: "real \<Rightarrow> real \<Rightarrow> Particle_mp \<Rightarrow> Particle_mp" where
  "bounce_y_mp ec height p =
     (if m_y p \<le> m_radius p then
        apply_elasticity_mp ec
          (p\<lparr>m_angle := - m_angle p, m_y := m_y p + 2 * (m_radius p - m_y p)\<rparr>)
      else if m_y p \<ge> height - m_radius p then
        apply_elasticity_mp ec
          (p\<lparr>m_angle := - m_angle p, m_y := m_y p - 2 * (m_y p + m_radius p - height)\<rparr>)
      else p)"

definition bounce_mp :: "real \<Rightarrow> real \<times> real \<Rightarrow> Particle_mp \<Rightarrow> Particle_mp" where
  "bounce_mp ec window_dimensions p =
     bounce_y_mp ec (snd window_dimensions) (bounce_x_mp ec (fst window_dimensions) p)"

text \<open>\<open>collide\<close> has no division; it cannot raise.\<close>

definition collide_mp :: "real \<Rightarrow> Particle_mp \<Rightarrow> Particle_mp \<Rightarrow> Particle_mp \<times> Particle_mp" where
  "collide_mp ec p p2 =
     (let dx = m_x p - m_x p2;
          dy = - (m_y p - m_y p2);
          dist = hypot dx dy
      in if dist \<le> m_radius p + m_radius p2 then
           (let angle_collision = atan2 dy dx;
                tangent_angle = angle_collision + pi / 2;
                overlap_amnt = m_radius p + m_radius p2 - dist
            in (apply_elasticity_mp ec
                  (p\<lparr>m_angle := - m_angle p + 2 * tangent_angle,
                      m_speed := m_speed p2,
                      m_x := m_x p + cos angle_collision * overlap_amnt / 2,
                      m_y := m_y p - sin angle_collision * overlap_amnt / 2\<rparr>),
                apply_elasticity_mp ec
                  (p2\<lparr>m_angle := - m_angle p2 + 2 * tangent_angle,
                       m_speed := m_speed p,
                       m_x := m_x p2 - cos angle_collision * overlap_amnt / 2,
                       m_y := m_y p2 + sin angle_collision * overlap_amnt / 2\<rparr>)))
         else (p, p2))"

definition follow_mp :: "real \<Rightarrow> Particle_mp \<Rightarrow> real \<times> real \<Rightarrow> Particle_mp" where
  "follow_mp sc p mouse_coords =
     (let dx = fst mouse_coords - m_x p;
          dy = - (snd mouse_coords - m_y p)
      in p\<lparr>m_speed := hypot dx dy * sc, m_angle := atan2 dy dx\<rparr>)"

subsection \<open>class Simulation\<close>

record Simulation_mp =
  width_mp :: real
  height_mp :: real
  particles_mp :: "Particle_mp list"
  selected_particle_mp :: "nat option"

text \<open>
  The loop of \<open>_select_particle\<close> in this script has no \<open>return\<close>: it runs to the end of
  the list and assigns at every particle that contains the point.
\<close>

fun select_loop_mp :: "real \<times> real \<Rightarrow> Particle_mp list \<Rightarrow> nat \<Rightarrow> nat option \<Rightarrow> nat option" where
  "select_loop_mp coords [] i sel = sel"
| "select_loop_mp coords (particle # rest) i sel =
     select_loop_mp coords rest (Suc i)
       (if hypot (fst coords - m_x particle) (snd coords - m_y particle) \<le> m_radius particle
        then Some i else sel)"

definition select_particle_mp :: "Simulation_mp \<Rightarrow> real \<times> real \<Rightarrow> Simulation_mp" where
  "select_particle_mp sim mouse_coodinates =
     sim\<lparr>selected_particle_mp :=
           select_loop_mp mouse_coodinates (particles_mp sim) 0 (selected_particle_mp sim)\<rparr>"

fun collide_rest_mp :: "real \<Rightarrow> nat \<Rightarrow> nat list \<Rightarrow> Particle_mp list \<Rightarrow> Particle_mp list" where
  "collide_rest_mp ec index [] ps = ps"
| "collide_rest_mp ec index (j # js) ps =
     (case collide_mp ec (ps ! index) (ps ! j) of
        (particle, other_particle) \<Rightarrow>
          collide_rest_mp ec index js (ps[index := particle, j := other_particle]))"

fun particles_loop_mp ::
  "real \<Rightarrow> real \<Rightarrow> real \<Rightarrow> real \<times> real \<Rightarrow> nat list \<Rightarrow> Particle_mp list \<Rightarrow> Particle_mp list" where
  "particles_loop_mp ec dc g dims [] ps = ps"
| "particles_loop_mp ec dc g dims (index # rest) ps =
     particles_loop_mp ec dc g dims rest
       (collide_rest_mp ec index [Suc index ..< length ps]
          (ps[index := bounce_mp ec dims (move_mp dc g (ps ! index))]))"

definition handle_events_mp ::
  "real \<Rightarrow> real \<Rightarrow> real \<Rightarrow> real \<Rightarrow> Simulation_mp \<Rightarrow> real \<times> real \<Rightarrow> Simulation_mp" where
  "handle_events_mp ec dc g sc sim mouse =
     (let ps = (case selected_particle_mp sim of
                  None \<Rightarrow> particles_mp sim
                | Some i \<Rightarrow> if i < length (particles_mp sim)
                            then (particles_mp sim)[i := follow_mp sc (particles_mp sim ! i) mouse]
                            else particles_mp sim)
      in sim\<lparr>particles_mp := particles_loop_mp ec dc g (width_mp sim, height_mp sim)
                                [0 ..< length ps] ps\<rparr>)"

section \<open>Auxiliary definitions for the lemmas about collide\<close>

text \<open>
  These name intermediate values of \<open>collide\<close> of \<open>2D_Collisions.py\<close>, so that lemmas
  can speak of them: the velocity vector of a particle, the two unit vectors that the
  calls of \<open>unit()\<close> return when they return, and the final velocity vector that
  \<open>collide\<close> computes for a particle from the unit vectors, the masses and the initial
  velocity vectors (\<open>p1_final_vec\<close>; \<open>p2_final_vec\<close> is the same expression with the
  roles of the particles exchanged). Lemma \<open>collide_result\<close> ties them to \<open>collide\<close>.
\<close>

definition velocity :: "Particle \<Rightarrow> Vector" where
  "velocity p = \<lparr>x_comp = p_speed_x p, y_comp = p_speed_y p\<rparr>"

definition unit_normal :: "Particle \<Rightarrow> Particle \<Rightarrow> Vector" where
  "unit_normal p p2 =
     \<lparr>x_comp = (p_x p - p_x p2) / hypot (p_x p - p_x p2) (p_y p - p_y p2),
      y_comp = (p_y p - p_y p2) / hypot (p_x p - p_x p2) (p_y p - p_y p2)\<rparr>"

definition unit_tangent :: "Particle \<Rightarrow> Particle \<Rightarrow> Vector" where
  "unit_tangent p p2 =
     \<lparr>x_comp = - (p_y p - p_y p2) / hypot (p_x p - p_x p2) (p_y p - p_y p2),
      y_comp = (p_x p - p_x p2) / hypot (p_x p - p_x p2) (p_y p - p_y p2)\<rparr>"

definition final_vec :: "Vector \<Rightarrow> Vector \<Rightarrow> real \<Rightarrow> real \<Rightarrow> Vector \<Rightarrow> Vector \<Rightarrow> Vector" where
  "final_vec un ut m1 m2 v1 v2 =
     add_vec (mul_num un ((mul_vec v1 un * (m1 - m2) + 2 * m2 * mul_vec v2 un) / (m1 + m2)))
             (mul_num ut (mul_vec v1 ut))"

section \<open>Facts about hypot and atan2\<close>

lemma hypot_eq_0: "hypot a b = 0 \<longleftrightarrow> a = 0 \<and> b = 0"
  unfolding hypot_def by simp

lemma hypot_nonneg: "0 \<le> hypot a b" unfolding hypot_def by simp

lemma hypot_minus: "hypot (- a) (- b) = hypot a b" unfolding hypot_def by simp

lemma hypot_swap_minus: "hypot (- b) a = hypot a b" unfolding hypot_def by (simp add: add.commute)

lemma hypot_diff_commute: "hypot (a - c) (b - d) = hypot (c - a) (d - b)"
  unfolding hypot_def by (simp add: power2_commute)

lemma hypot_sq: "(hypot a b)\<^sup>2 = a\<^sup>2 + b\<^sup>2"
  unfolding hypot_def by simp

lemma sqrt_one_plus_ratio:
  assumes "a \<noteq> 0"
  shows "sqrt (1 + (b / a)\<^sup>2) = hypot a b / \<bar>a\<bar>"
proof -
  have "1 + (b / a)\<^sup>2 = (a\<^sup>2 + b\<^sup>2) / a\<^sup>2"
    using assms by (simp add: power_divide add_divide_distrib)
  then have "sqrt (1 + (b / a)\<^sup>2) = sqrt (a\<^sup>2 + b\<^sup>2) / sqrt (a\<^sup>2)"
    by (simp add: real_sqrt_divide)
  then show ?thesis by (simp add: hypot_def)
qed

lemma cos_arctan_ratio:
  assumes "a \<noteq> 0"
  shows "cos (arctan (b / a)) = \<bar>a\<bar> / hypot a b"
  by (simp add: cos_arctan sqrt_one_plus_ratio [OF assms])

lemma sin_arctan_ratio:
  assumes "a \<noteq> 0"
  shows "sin (arctan (b / a)) = (b / a) * \<bar>a\<bar> / hypot a b"
  by (simp add: sin_arctan sqrt_one_plus_ratio [OF assms])

lemma hypot_zero_left: "hypot 0 b = \<bar>b\<bar>" unfolding hypot_def by simp

lemma cos_atan2:
  assumes "a \<noteq> 0 \<or> b \<noteq> 0"
  shows "cos (atan2 b a) = a / hypot a b"
proof -
  consider "0 < a" | "a < 0" | "a = 0" "b \<noteq> 0" using assms by fastforce
  then show ?thesis
  proof cases
    case 1
    then show ?thesis by (simp add: atan2_def cos_arctan_ratio)
  next
    case 2
    then show ?thesis by (simp add: atan2_def cos_arctan_ratio cos_add cos_diff)
  next
    case 3
    then show ?thesis by (simp add: atan2_def)
  qed
qed

lemma sin_atan2:
  assumes "a \<noteq> 0 \<or> b \<noteq> 0"
  shows "sin (atan2 b a) = b / hypot a b"
proof -
  consider "0 < a" | "a < 0" | "a = 0" "0 < b" | "a = 0" "b < 0" using assms by fastforce
  then show ?thesis
  proof cases
    case 1
    then show ?thesis by (simp add: atan2_def sin_arctan_ratio)
  next
    case 2
    then show ?thesis by (simp add: atan2_def sin_arctan_ratio sin_add sin_diff)
  next
    case 3
    then show ?thesis by (simp add: atan2_def hypot_zero_left)
  next
    case 4
    then show ?thesis by (simp add: atan2_def hypot_zero_left)
  qed
qed

lemma atan2_zero: "atan2 0 0 = 0" by (simp add: atan2_def)

lemma cos_atan2_hypot: "cos (atan2 b a) * hypot a b = a"
proof (cases "a = 0 \<and> b = 0")
  case True
  then show ?thesis by (simp add: hypot_def)
next
  case False
  then have "hypot a b \<noteq> 0" by (simp add: hypot_eq_0)
  then show ?thesis using False by (simp add: cos_atan2)
qed

lemma sin_atan2_hypot: "sin (atan2 b a) * hypot a b = b"
proof (cases "a = 0 \<and> b = 0")
  case True
  then show ?thesis by (simp add: hypot_def)
next
  case False
  then have "hypot a b \<noteq> 0" by (simp add: hypot_eq_0)
  then show ?thesis using False by (simp add: sin_atan2)
qed

lemma atan2_minus:
  assumes "a \<noteq> 0 \<or> b \<noteq> 0"
  shows "atan2 (- b) (- a) = atan2 b a + pi \<or> atan2 (- b) (- a) = atan2 b a - pi"
  using assms by (auto simp add: atan2_def)

lemma hypot_zero_right: "hypot a 0 = \<bar>a\<bar>" unfolding hypot_def by simp

lemma hypot_scale: "hypot (a * c) (b * c) = \<bar>c\<bar> * hypot a b"
proof -
  have "(a * c)\<^sup>2 + (b * c)\<^sup>2 = c\<^sup>2 * (a\<^sup>2 + b\<^sup>2)"
    by (simp add: algebra_simps)
  then show ?thesis
    by (simp add: hypot_def real_sqrt_mult)
qed

lemma hypot_pushed:
  assumes "0 \<le> k"
  shows "hypot (a + cos (atan2 b a) * k) (b + sin (atan2 b a) * k) = hypot a b + k"
proof (cases "a = 0 \<and> b = 0")
  case True
  then show ?thesis using assms by (simp add: atan2_zero hypot_zero_right)
next
  case False
  define d where "d = hypot a b"
  have dpos: "0 < d" using False hypot_nonneg [of a b] hypot_eq_0 [of a b]
    by (simp add: d_def less_le)
  have c: "cos (atan2 b a) = a / d" and s: "sin (atan2 b a) = b / d"
    using False by (simp_all add: cos_atan2 sin_atan2 d_def)
  have "a + a / d * k = a * (1 + k / d)" "b + b / d * k = b * (1 + k / d)"
    by (simp_all add: algebra_simps)
  then have "hypot (a + a / d * k) (b + b / d * k) = \<bar>1 + k / d\<bar> * d"
    by (simp add: hypot_scale d_def)
  also have "\<dots> = (1 + k / d) * d" using assms dpos by simp
  also have "\<dots> = d + k" using dpos by (simp add: algebra_simps)
  finally show ?thesis by (simp add: c s d_def)
qed

lemma hypot_3_4: "hypot (- 3) (- 4) = 5"
proof -
  have "sqrt (5\<^sup>2) = \<bar>5::real\<bar>" by (rule real_sqrt_abs)
  then show ?thesis by (simp add: hypot_def)
qed

section \<open>Fields that no operation assigns\<close>

lemma recalculate_frame:
  "p_mass (recalculate_speed_components p a k) = p_mass p"
  "p_radius (recalculate_speed_components p a k) = p_radius p"
  "p_x (recalculate_speed_components p a k) = p_x p"
  "p_y (recalculate_speed_components p a k) = p_y p"
  "p_color (recalculate_speed_components p a k) = p_color p"
  by (simp_all add: recalculate_speed_components_def Let_def)

lemma apply_elasticity_frame:
  "p_mass (apply_elasticity ec p) = p_mass p"
  "p_radius (apply_elasticity ec p) = p_radius p"
  "p_x (apply_elasticity ec p) = p_x p"
  "p_y (apply_elasticity ec p) = p_y p"
  "p_color (apply_elasticity ec p) = p_color p"
  by (simp_all add: apply_elasticity_def recalculate_frame)

lemma apply_drag_frame:
  "p_mass (apply_drag dc p) = p_mass p"
  "p_radius (apply_drag dc p) = p_radius p"
  "p_x (apply_drag dc p) = p_x p"
  "p_y (apply_drag dc p) = p_y p"
  "p_color (apply_drag dc p) = p_color p"
  by (simp_all add: apply_drag_def recalculate_frame)

lemma bounce_frame:
  "p_mass (bounce ec dims p) = p_mass p"
  "p_radius (bounce ec dims p) = p_radius p"
  "p_color (bounce ec dims p) = p_color p"
  by (simp_all add: bounce_def Let_def apply_elasticity_frame recalculate_frame)

lemma move_frame:
  "p_mass (move ec dc dims p) = p_mass p"
  "p_radius (move ec dc dims p) = p_radius p"
  "p_color (move ec dc dims p) = p_color p"
  by (simp_all add: move_def apply_drag_frame bounce_frame)

lemma follow_frame:
  "p_mass (follow fc p m) = p_mass p"
  "p_radius (follow fc p m) = p_radius p"
  "p_color (follow fc p m) = p_color p"
  by (simp_all add: follow_def Let_def recalculate_frame)

lemma set_velocity_frame:
  "p_mass (set_velocity p v) = p_mass p"
  "p_radius (set_velocity p v) = p_radius p"
  "p_x (set_velocity p v) = p_x p"
  "p_y (set_velocity p v) = p_y p"
  "p_color (set_velocity p v) = p_color p"
  by (simp_all add: set_velocity_def recalculate_frame)

lemma push_apart_frame:
  "p_mass (fst (push_apart p p2)) = p_mass p"
  "p_radius (fst (push_apart p p2)) = p_radius p"
  "p_mass (snd (push_apart p p2)) = p_mass p2"
  "p_radius (snd (push_apart p p2)) = p_radius p2"
  "p_color (fst (push_apart p p2)) = p_color p"
  "p_color (snd (push_apart p p2)) = p_color p2"
  by (simp_all add: push_apart_def Let_def)

lemma after_collide_frame:
  "p_mass (fst (after_collide ec p p2)) = p_mass p"
  "p_radius (fst (after_collide ec p p2)) = p_radius p"
  "p_mass (snd (after_collide ec p p2)) = p_mass p2"
  "p_radius (snd (after_collide ec p p2)) = p_radius p2"
  "p_color (fst (after_collide ec p p2)) = p_color p"
  "p_color (snd (after_collide ec p p2)) = p_color p2"
  by (auto simp add: after_collide_def collide_def Let_def push_apart_def
      apply_elasticity_frame set_velocity_frame split: sum.splits if_splits)

lemma mp_frame:
  "m_radius (move_mp dc g q) = m_radius q"
  "m_radius (bounce_mp ec dims q) = m_radius q"
  "m_radius (follow_mp sc q m) = m_radius q"
  "m_radius (fst (collide_mp ec q q2)) = m_radius q"
  "m_radius (snd (collide_mp ec q q2)) = m_radius q2"
  by (simp_all add: move_mp_def apply_gravity_mp_def apply_drag_mp_def bounce_mp_def
      bounce_x_mp_def bounce_y_mp_def follow_mp_def collide_mp_def apply_elasticity_mp_def
      Let_def)

section \<open>The result of collide\<close>

lemma hypot_tangent: "hypot (y2 - y) (x - x2) = hypot (x - x2) (y - y2)"
  unfolding hypot_def by (simp add: power2_commute [of y2 y] add.commute)

lemma neg_diff_divide: "(b - a) / (h::real) = - ((a - b) / h)"
proof -
  have "b - a = - (a - b)" by simp
  then show ?thesis by (simp only: minus_divide_left)
qed

lemma exchange_neg:
  "((- a) * k + 2 * m * (- b)) / (M::real) = - ((a * k + 2 * m * b) / M)"
proof -
  have "(- a) * k + 2 * m * (- b) = - (a * k + 2 * m * b)" by (simp add: algebra_simps)
  then show ?thesis by (simp only: minus_divide_left)
qed

lemma overlap_amount_commute: "overlap_amount p2 p = overlap_amount p p2"
  by (simp add: overlap_amount_def hypot_diff_commute [of "p_x p2" "p_x p"] add.commute)

lemma is_colliding_commute: "is_colliding p2 p = is_colliding p p2"
  by (simp add: is_colliding_def overlap_amount_commute)

lemma collide_not_colliding: "\<not> is_colliding p p2 \<Longrightarrow> collide ec p p2 = Inr (p, p2)"
  by (simp add: collide_def)

lemma collide_coincident:
  assumes "is_colliding p p2" and "p_x p = p_x p2" and "p_y p = p_y p2"
  shows "collide ec p p2 = Inl ZeroDivisionError"
  using assms by (simp add: collide_def unit_def magnitude_def hypot_def)

lemma collide_massless:
  assumes "is_colliding p p2" and "p_mass p + p_mass p2 = 0"
  shows "collide ec p p2 = Inl ZeroDivisionError"
  using assms by (simp add: collide_def unit_def Let_def split: sum.splits)

lemma collide_result:
  assumes "is_colliding p p2" and "p_x p \<noteq> p_x p2 \<or> p_y p \<noteq> p_y p2"
    and "p_mass p + p_mass p2 \<noteq> 0"
  shows "collide ec p p2 =
         Inr (push_apart
                (apply_elasticity ec (set_velocity p
                   (final_vec (unit_normal p p2) (unit_tangent p p2) (p_mass p) (p_mass p2)
                      (velocity p) (velocity p2))))
                (apply_elasticity ec (set_velocity p2
                   (final_vec (unit_normal p p2) (unit_tangent p p2) (p_mass p2) (p_mass p)
                      (velocity p2) (velocity p)))))"
proof -
  have d0: "hypot (p_x p - p_x p2) (p_y p - p_y p2) \<noteq> 0"
    using assms(2) by (simp add: hypot_eq_0)
  have un: "unit \<lparr>x_comp = p_x p - p_x p2, y_comp = p_y p - p_y p2\<rparr> = Inr (unit_normal p p2)"
    using d0 by (simp add: unit_def magnitude_def unit_normal_def)
  have ut: "unit \<lparr>x_comp = p_y p2 - p_y p, y_comp = p_x p - p_x p2\<rparr>
            = Inr (unit_tangent p p2)"
    using d0 by (simp add: unit_def magnitude_def unit_tangent_def hypot_tangent)
  have m: "p_mass p2 + p_mass p = p_mass p + p_mass p2" by simp
  show ?thesis
    using assms(1,3)
    by (simp add: collide_def Let_def un ut final_vec_def velocity_def m)
qed

lemma unit_normal_swap:
  "unit_normal p2 p = \<lparr>x_comp = - x_comp (unit_normal p p2), y_comp = - y_comp (unit_normal p p2)\<rparr>"
  by (simp add: unit_normal_def hypot_diff_commute [of "p_x p2" "p_x p"]
      neg_diff_divide [of "p_x p2"] neg_diff_divide [of "p_y p2"])

lemma unit_tangent_swap:
  "unit_tangent p2 p = \<lparr>x_comp = - x_comp (unit_tangent p p2), y_comp = - y_comp (unit_tangent p p2)\<rparr>"
  by (simp add: unit_tangent_def hypot_diff_commute [of "p_x p2" "p_x p"]
      neg_diff_divide [of "p_x p2"] neg_diff_divide [of "p_y p"])

lemma final_vec_flip:
  "final_vec \<lparr>x_comp = - x_comp un, y_comp = - y_comp un\<rparr>
             \<lparr>x_comp = - x_comp ut, y_comp = - y_comp ut\<rparr> m1 m2 v1 v2
   = final_vec un ut m1 m2 v1 v2"
proof -
  have n: "mul_vec v \<lparr>x_comp = - x_comp u, y_comp = - y_comp u\<rparr> = - mul_vec v u" for v u
    by (simp add: mul_vec_def)
  have e: "(- mul_vec v1 un * (m1 - m2) + 2 * m2 * (- mul_vec v2 un)) / (m1 + m2)
           = - ((mul_vec v1 un * (m1 - m2) + 2 * m2 * mul_vec v2 un) / (m1 + m2))"
    by (rule exchange_neg)
  show ?thesis
    unfolding final_vec_def n e by (simp add: add_vec_def mul_num_def)
qed

lemma speed_after_velocity:
  "p_speed_x (apply_elasticity ec (set_velocity p v)) = x_comp v * (if ec = 0 then 1 else ec)"
  "p_speed_y (apply_elasticity ec (set_velocity p v)) = y_comp v * (if ec = 0 then 1 else ec)"
proof -
  have c1: "cos (atan2 (y_comp v) (x_comp v)) * magnitude v = x_comp v"
    using cos_atan2_hypot [of "y_comp v" "x_comp v"] by (simp add: magnitude_def)
  have s1: "sin (atan2 (y_comp v) (x_comp v)) * magnitude v = y_comp v"
    using sin_atan2_hypot [of "y_comp v" "x_comp v"] by (simp add: magnitude_def)
  have c: "cos (atan2 (y_comp v) (x_comp v)) * (magnitude v * k) = x_comp v * k" for k
    using c1 by (simp add: mult.assoc [symmetric])
  have s: "sin (atan2 (y_comp v) (x_comp v)) * (magnitude v * k) = y_comp v * k" for k
    using s1 by (simp add: mult.assoc [symmetric])
  show "p_speed_x (apply_elasticity ec (set_velocity p v)) = x_comp v * (if ec = 0 then 1 else ec)"
    by (simp add: apply_elasticity_def set_velocity_def recalculate_speed_components_def
        Let_def c c1)
  show "p_speed_y (apply_elasticity ec (set_velocity p v)) = y_comp v * (if ec = 0 then 1 else ec)"
    by (simp add: apply_elasticity_def set_velocity_def recalculate_speed_components_def
        Let_def s s1)
qed

lemma push_apart_speed:
  "p_speed_x (fst (push_apart a b)) = p_speed_x a"
  "p_speed_y (fst (push_apart a b)) = p_speed_y a"
  "p_speed_x (snd (push_apart a b)) = p_speed_x b"
  "p_speed_y (snd (push_apart a b)) = p_speed_y b"
  by (simp_all add: push_apart_def Let_def)

lemma unit_normal_length:
  assumes "p_x p \<noteq> p_x p2 \<or> p_y p \<noteq> p_y p2"
  shows "(x_comp (unit_normal p p2))\<^sup>2 + (y_comp (unit_normal p p2))\<^sup>2 = 1"
proof -
  define d where "d = hypot (p_x p - p_x p2) (p_y p - p_y p2)"
  have d0: "d \<noteq> 0" using assms by (simp add: d_def hypot_eq_0)
  have "((p_x p - p_x p2) / d)\<^sup>2 + ((p_y p - p_y p2) / d)\<^sup>2
        = ((p_x p - p_x p2)\<^sup>2 + (p_y p - p_y p2)\<^sup>2) / d\<^sup>2"
    by (simp add: power_divide add_divide_distrib)
  also have "\<dots> = d\<^sup>2 / d\<^sup>2" by (simp only: d_def hypot_sq)
  also have "\<dots> = 1" using d0 by simp
  finally show ?thesis by (simp add: unit_normal_def d_def)
qed

lemma unit_tangent_normal:
  "x_comp (unit_tangent p p2) = - y_comp (unit_normal p p2)"
  "y_comp (unit_tangent p p2) = x_comp (unit_normal p p2)"
  by (simp_all add: unit_tangent_def unit_normal_def neg_diff_divide [of "p_y p2"])

lemma exchange_momentum:
  fixes m1 m2 a b :: real
  assumes "m1 + m2 \<noteq> 0"
  shows "m1 * ((a * (m1 - m2) + 2 * m2 * b) / (m1 + m2))
         + m2 * ((b * (m2 - m1) + 2 * m1 * a) / (m2 + m1)) = m1 * a + m2 * b"
proof -
  have "m1 * ((a * (m1 - m2) + 2 * m2 * b) / (m1 + m2))
         + m2 * ((b * (m2 - m1) + 2 * m1 * a) / (m2 + m1))
        = ((m1 * a + m2 * b) * (m1 + m2)) / (m1 + m2)"
    by (simp add: add.commute [of m2 m1] add_divide_distrib [symmetric] algebra_simps)
  then show ?thesis using assms by simp
qed

lemma final_vec_momentum:
  fixes ux uy :: real
  assumes "ux\<^sup>2 + uy\<^sup>2 = 1" and "m1 + m2 \<noteq> 0"
  shows "m1 * x_comp (final_vec \<lparr>x_comp = ux, y_comp = uy\<rparr> \<lparr>x_comp = - uy, y_comp = ux\<rparr> m1 m2 v1 v2)
         + m2 * x_comp (final_vec \<lparr>x_comp = ux, y_comp = uy\<rparr> \<lparr>x_comp = - uy, y_comp = ux\<rparr> m2 m1 v2 v1)
         = m1 * x_comp v1 + m2 * x_comp v2"
    and "m1 * y_comp (final_vec \<lparr>x_comp = ux, y_comp = uy\<rparr> \<lparr>x_comp = - uy, y_comp = ux\<rparr> m1 m2 v1 v2)
         + m2 * y_comp (final_vec \<lparr>x_comp = ux, y_comp = uy\<rparr> \<lparr>x_comp = - uy, y_comp = ux\<rparr> m2 m1 v2 v1)
         = m1 * y_comp v1 + m2 * y_comp v2"
proof -
  define a where "a = x_comp v1 * ux + y_comp v1 * uy"
  define b where "b = x_comp v2 * ux + y_comp v2 * uy"
  define c1 where "c1 = (a * (m1 - m2) + 2 * m2 * b) / (m1 + m2)"
  define c2 where "c2 = (b * (m2 - m1) + 2 * m1 * a) / (m2 + m1)"
  define t1 where "t1 = x_comp v1 * (- uy) + y_comp v1 * ux"
  define t2 where "t2 = x_comp v2 * (- uy) + y_comp v2 * ux"
  have ex: "m1 * c1 + m2 * c2 = m1 * a + m2 * b"
    unfolding c1_def c2_def by (rule exchange_momentum [OF assms(2)])
  have u: "ux * ux + uy * uy = 1" using assms(1) by (simp add: power2_eq_square)
  have dx1: "ux * a - uy * t1 = x_comp v1"
  proof -
    have "ux * a - uy * t1 = x_comp v1 * (ux * ux + uy * uy)"
      by (simp add: a_def t1_def algebra_simps)
    then show ?thesis by (simp add: u)
  qed
  have dx2: "ux * b - uy * t2 = x_comp v2"
  proof -
    have "ux * b - uy * t2 = x_comp v2 * (ux * ux + uy * uy)"
      by (simp add: b_def t2_def algebra_simps)
    then show ?thesis by (simp add: u)
  qed
  have dy1: "uy * a + ux * t1 = y_comp v1"
  proof -
    have "uy * a + ux * t1 = y_comp v1 * (ux * ux + uy * uy)"
      by (simp add: a_def t1_def algebra_simps)
    then show ?thesis by (simp add: u)
  qed
  have dy2: "uy * b + ux * t2 = y_comp v2"
  proof -
    have "uy * b + ux * t2 = y_comp v2 * (ux * ux + uy * uy)"
      by (simp add: b_def t2_def algebra_simps)
    then show ?thesis by (simp add: u)
  qed
  have fx1: "x_comp (final_vec \<lparr>x_comp = ux, y_comp = uy\<rparr> \<lparr>x_comp = - uy, y_comp = ux\<rparr> m1 m2 v1 v2)
             = ux * c1 - uy * t1"
    by (simp add: final_vec_def add_vec_def mul_num_def mul_vec_def c1_def a_def b_def t1_def)
  have fx2: "x_comp (final_vec \<lparr>x_comp = ux, y_comp = uy\<rparr> \<lparr>x_comp = - uy, y_comp = ux\<rparr> m2 m1 v2 v1)
             = ux * c2 - uy * t2"
    by (simp add: final_vec_def add_vec_def mul_num_def mul_vec_def c2_def a_def b_def t2_def)
  have fy1: "y_comp (final_vec \<lparr>x_comp = ux, y_comp = uy\<rparr> \<lparr>x_comp = - uy, y_comp = ux\<rparr> m1 m2 v1 v2)
             = uy * c1 + ux * t1"
    by (simp add: final_vec_def add_vec_def mul_num_def mul_vec_def c1_def a_def b_def t1_def)
  have fy2: "y_comp (final_vec \<lparr>x_comp = ux, y_comp = uy\<rparr> \<lparr>x_comp = - uy, y_comp = ux\<rparr> m2 m1 v2 v1)
             = uy * c2 + ux * t2"
    by (simp add: final_vec_def add_vec_def mul_num_def mul_vec_def c2_def a_def b_def t2_def)
  have "m1 * (ux * c1 - uy * t1) + m2 * (ux * c2 - uy * t2)
        = ux * (m1 * c1 + m2 * c2) - uy * (m1 * t1 + m2 * t2)"
    by (simp add: algebra_simps)
  also have "\<dots> = ux * (m1 * a + m2 * b) - uy * (m1 * t1 + m2 * t2)"
    by (simp only: ex)
  also have "\<dots> = m1 * (ux * a - uy * t1) + m2 * (ux * b - uy * t2)"
    by (simp add: algebra_simps)
  finally show "m1 * x_comp (final_vec \<lparr>x_comp = ux, y_comp = uy\<rparr> \<lparr>x_comp = - uy, y_comp = ux\<rparr> m1 m2 v1 v2)
         + m2 * x_comp (final_vec \<lparr>x_comp = ux, y_comp = uy\<rparr> \<lparr>x_comp = - uy, y_comp = ux\<rparr> m2 m1 v2 v1)
         = m1 * x_comp v1 + m2 * x_comp v2"
    by (simp only: fx1 fx2 dx1 dx2)
  have "m1 * (uy * c1 + ux * t1) + m2 * (uy * c2 + ux * t2)
        = uy * (m1 * c1 + m2 * c2) + ux * (m1 * t1 + m2 * t2)"
    by (simp add: algebra_simps)
  also have "\<dots> = uy * (m1 * a + m2 * b) + ux * (m1 * t1 + m2 * t2)"
    by (simp only: ex)
  also have "\<dots> = m1 * (uy * a + ux * t1) + m2 * (uy * b + ux * t2)"
    by (simp add: algebra_simps)
  finally show "m1 * y_comp (final_vec \<lparr>x_comp = ux, y_comp = uy\<rparr> \<lparr>x_comp = - uy, y_comp = ux\<rparr> m1 m2 v1 v2)
         + m2 * y_comp (final_vec \<lparr>x_comp = ux, y_comp = uy\<rparr> \<lparr>x_comp = - uy, y_comp = ux\<rparr> m2 m1 v2 v1)
         = m1 * y_comp v1 + m2 * y_comp v2"
    by (simp only: fy1 fy2 dy1 dy2)
qed

lemma atan2_swap_cos_sin:
  assumes "a \<noteq> c \<or> b \<noteq> d"
  shows "cos (atan2 (d - b) (c - a)) = - cos (atan2 (b - d) (a - c))"
    and "sin (atan2 (d - b) (c - a)) = - sin (atan2 (b - d) (a - c))"
proof -
  have h: "hypot (c - a) (d - b) = hypot (a - c) (b - d)"
    by (rule hypot_diff_commute)
  have 1: "c - a \<noteq> 0 \<or> d - b \<noteq> 0" and 2: "a - c \<noteq> 0 \<or> b - d \<noteq> 0"
    using assms by auto
  show "cos (atan2 (d - b) (c - a)) = - cos (atan2 (b - d) (a - c))"
    by (simp only: cos_atan2 [OF 1] cos_atan2 [OF 2] h neg_diff_divide [of c a])
  show "sin (atan2 (d - b) (c - a)) = - sin (atan2 (b - d) (a - c))"
    by (simp only: sin_atan2 [OF 1] sin_atan2 [OF 2] h neg_diff_divide [of d b])
qed

lemma push_apart_swap:
  assumes "p_x a \<noteq> p_x b \<or> p_y a \<noteq> p_y b"
  shows "push_apart b a = (snd (push_apart a b), fst (push_apart a b))"
  by (simp add: push_apart_def Let_def overlap_amount_commute [of a b]
      atan2_swap_cos_sin [OF assms])

lemma unit_vectors_as_records:
  "unit_normal p p2 = \<lparr>x_comp = x_comp (unit_normal p p2), y_comp = y_comp (unit_normal p p2)\<rparr>"
  "unit_tangent p p2 = \<lparr>x_comp = - y_comp (unit_normal p p2), y_comp = x_comp (unit_normal p p2)\<rparr>"
  by (simp_all add: unit_tangent_def unit_normal_def neg_diff_divide [of "p_y p2"])

lemma after_collide_unchanged:
  "\<not> is_colliding p p2 \<Longrightarrow> after_collide ec p p2 = (p, p2)"
  "is_colliding p p2 \<Longrightarrow> p_x p = p_x p2 \<Longrightarrow> p_y p = p_y p2 \<Longrightarrow> after_collide ec p p2 = (p, p2)"
  "is_colliding p p2 \<Longrightarrow> p_mass p + p_mass p2 = 0 \<Longrightarrow> after_collide ec p p2 = (p, p2)"
  by (simp_all add: after_collide_def collide_not_colliding collide_coincident collide_massless)

lemma after_collide_result:
  assumes "is_colliding p p2" and "p_x p \<noteq> p_x p2 \<or> p_y p \<noteq> p_y p2"
    and "p_mass p + p_mass p2 \<noteq> 0"
  shows "after_collide ec p p2 =
         push_apart
           (apply_elasticity ec (set_velocity p
              (final_vec (unit_normal p p2) (unit_tangent p p2) (p_mass p) (p_mass p2)
                 (velocity p) (velocity p2))))
           (apply_elasticity ec (set_velocity p2
              (final_vec (unit_normal p p2) (unit_tangent p p2) (p_mass p2) (p_mass p)
                 (velocity p2) (velocity p))))"
  by (simp add: after_collide_def collide_result [OF assms])

text \<open>
  Passing the particles in the other order leaves each with the same position and the
  same velocity vector. (In the model the whole records agree; the stored angles of the
  code can differ where \<open>atan2\<close> meets a negative zero, so only these fields are stated.)
\<close>

lemma after_collide_swap:
  "p_x (fst (after_collide ec p2 p)) = p_x (snd (after_collide ec p p2))
   \<and> p_y (fst (after_collide ec p2 p)) = p_y (snd (after_collide ec p p2))
   \<and> p_speed_x (fst (after_collide ec p2 p)) = p_speed_x (snd (after_collide ec p p2))
   \<and> p_speed_y (fst (after_collide ec p2 p)) = p_speed_y (snd (after_collide ec p p2))
   \<and> p_x (snd (after_collide ec p2 p)) = p_x (fst (after_collide ec p p2))
   \<and> p_y (snd (after_collide ec p2 p)) = p_y (fst (after_collide ec p p2))
   \<and> p_speed_x (snd (after_collide ec p2 p)) = p_speed_x (fst (after_collide ec p p2))
   \<and> p_speed_y (snd (after_collide ec p2 p)) = p_speed_y (fst (after_collide ec p p2))"
proof -
  have swap: "after_collide ec p2 p = (snd (after_collide ec p p2), fst (after_collide ec p p2))"
  proof (cases "is_colliding p p2 \<and> (p_x p \<noteq> p_x p2 \<or> p_y p \<noteq> p_y p2)
                  \<and> p_mass p + p_mass p2 \<noteq> 0")
    case False
    then have "after_collide ec p p2 = (p, p2)"
      using after_collide_unchanged [of p p2 ec] by blast
    moreover have "after_collide ec p2 p = (p2, p)"
    proof (cases "is_colliding p2 p")
      case no: False
      then show ?thesis by (simp add: after_collide_unchanged)
    next
      case yes: True
      then have "is_colliding p p2" by (simp add: is_colliding_commute [of p p2])
      with False have "(p_x p2 = p_x p \<and> p_y p2 = p_y p) \<or> p_mass p2 + p_mass p = 0"
        by (auto simp add: add.commute)
      then show ?thesis
      proof
        assume "p_x p2 = p_x p \<and> p_y p2 = p_y p"
        then show ?thesis using yes by (simp add: after_collide_unchanged)
      next
        assume "p_mass p2 + p_mass p = 0"
        then show ?thesis using yes by (simp add: after_collide_unchanged)
      qed
    qed
    ultimately show ?thesis by simp
  next
    case True
    then have col: "is_colliding p p2" and apart: "p_x p \<noteq> p_x p2 \<or> p_y p \<noteq> p_y p2"
      and m: "p_mass p + p_mass p2 \<noteq> 0" by simp_all
    have col': "is_colliding p2 p" using col by (simp add: is_colliding_commute [of p p2])
    have apart': "p_x p2 \<noteq> p_x p \<or> p_y p2 \<noteq> p_y p" using apart by auto
    have m': "p_mass p2 + p_mass p \<noteq> 0" using m by (simp add: add.commute)
    define A where "A = apply_elasticity ec (set_velocity p
                (final_vec (unit_normal p p2) (unit_tangent p p2) (p_mass p) (p_mass p2)
                   (velocity p) (velocity p2)))"
    define B where "B = apply_elasticity ec (set_velocity p2
                (final_vec (unit_normal p p2) (unit_tangent p p2) (p_mass p2) (p_mass p)
                   (velocity p2) (velocity p)))"
    have 1: "after_collide ec p p2 = push_apart A B"
      unfolding A_def B_def by (rule after_collide_result [OF col apart m])
    have 2: "after_collide ec p2 p = push_apart B A"
      unfolding A_def B_def
      by (simp only: after_collide_result [OF col' apart' m'] unit_normal_swap [of p2 p]
          unit_tangent_swap [of p2 p] final_vec_flip)
    have "p_x A \<noteq> p_x B \<or> p_y A \<noteq> p_y B"
      using apart by (simp add: A_def B_def apply_elasticity_frame set_velocity_frame)
    then show ?thesis by (simp add: 1 2 push_apart_swap)
  qed
  show ?thesis by (simp add: swap)
qed

lemma atan2_swap:
  assumes "a \<noteq> c \<or> b \<noteq> d"
  shows "atan2 (d - b) (c - a) = atan2 (b - d) (a - c) + pi
         \<or> atan2 (d - b) (c - a) = atan2 (b - d) (a - c) - pi"
proof -
  have "a - c \<noteq> 0 \<or> b - d \<noteq> 0" using assms by auto
  from atan2_minus [OF this] show ?thesis by simp
qed

lemma reflected_angle_swap:
  assumes "t' = t + pi \<or> t' = t - pi"
  shows "cos (- g + 2 * (t' + pi / 2)) = cos (- g + 2 * (t + pi / 2))"
    and "sin (- g + 2 * (t' + pi / 2)) = sin (- g + 2 * (t + pi / 2))"
proof -
  define s where "s = - g + 2 * (t + pi / 2)"
  define l where "l = - g + 2 * (t' + pi / 2)"
  have per: "cos (s - 2 * pi) = cos s" "sin (s - 2 * pi) = sin s"
    using cos_periodic [of "s - 2 * pi"] sin_periodic [of "s - 2 * pi"] by simp_all
  from assms have "l = s + 2 * pi \<or> l = s - 2 * pi"
    by (auto simp add: s_def l_def algebra_simps)
  then have "cos l = cos s \<and> sin l = sin s"
  proof
    assume "l = s + 2 * pi"
    then show ?thesis by (simp only: cos_periodic sin_periodic simp_thms)
  next
    assume "l = s - 2 * pi"
    then show ?thesis by (simp only: per simp_thms)
  qed
  then show "cos (- g + 2 * (t' + pi / 2)) = cos (- g + 2 * (t + pi / 2))"
    and "sin (- g + 2 * (t' + pi / 2)) = sin (- g + 2 * (t + pi / 2))"
    unfolding s_def l_def by simp_all
qed

lemma collide_mp_symmetric:
  assumes "m_x q \<noteq> m_x q2 \<or> m_y q \<noteq> m_y q2"
  shows "m_x (snd (collide_mp ec q2 q)) = m_x (fst (collide_mp ec q q2))"
    and "m_y (snd (collide_mp ec q2 q)) = m_y (fst (collide_mp ec q q2))"
    and "m_speed (snd (collide_mp ec q2 q)) = m_speed (fst (collide_mp ec q q2))"
    and "cos (m_angle (snd (collide_mp ec q2 q))) = cos (m_angle (fst (collide_mp ec q q2)))"
    and "sin (m_angle (snd (collide_mp ec q2 q))) = sin (m_angle (fst (collide_mp ec q q2)))"
    and "m_x (fst (collide_mp ec q2 q)) = m_x (snd (collide_mp ec q q2))"
    and "m_y (fst (collide_mp ec q2 q)) = m_y (snd (collide_mp ec q q2))"
    and "m_speed (fst (collide_mp ec q2 q)) = m_speed (snd (collide_mp ec q q2))"
    and "cos (m_angle (fst (collide_mp ec q2 q))) = cos (m_angle (snd (collide_mp ec q q2)))"
    and "sin (m_angle (fst (collide_mp ec q2 q))) = sin (m_angle (snd (collide_mp ec q q2)))"
proof -
  define t where "t = atan2 (m_y q2 - m_y q) (m_x q - m_x q2)"
  define t' where "t' = atan2 (m_y q - m_y q2) (m_x q2 - m_x q)"
  have ne: "m_x q \<noteq> m_x q2 \<or> m_y q2 \<noteq> m_y q" using assms by auto
  have h: "hypot (m_x q2 - m_x q) (m_y q - m_y q2) = hypot (m_x q - m_x q2) (m_y q2 - m_y q)"
    by (rule hypot_diff_commute)
  have r: "m_radius q2 + m_radius q = m_radius q + m_radius q2" by simp
  have tt: "t' = t + pi \<or> t' = t - pi"
    unfolding t_def t'_def by (rule atan2_swap [OF ne])
  have c: "cos t' = - cos t" and s: "sin t' = - sin t"
    unfolding t_def t'_def by (rule atan2_swap_cos_sin [OF ne])+
  note ra = reflected_angle_swap [OF tt]
  show "m_x (snd (collide_mp ec q2 q)) = m_x (fst (collide_mp ec q q2))"
    and "m_y (snd (collide_mp ec q2 q)) = m_y (fst (collide_mp ec q q2))"
    and "m_speed (snd (collide_mp ec q2 q)) = m_speed (fst (collide_mp ec q q2))"
    and "m_x (fst (collide_mp ec q2 q)) = m_x (snd (collide_mp ec q q2))"
    and "m_y (fst (collide_mp ec q2 q)) = m_y (snd (collide_mp ec q q2))"
    and "m_speed (fst (collide_mp ec q2 q)) = m_speed (snd (collide_mp ec q q2))"
    by (simp_all add: collide_mp_def Let_def apply_elasticity_mp_def h r
        t_def [symmetric] t'_def [symmetric] c s)
  show "cos (m_angle (snd (collide_mp ec q2 q))) = cos (m_angle (fst (collide_mp ec q q2)))"
    and "sin (m_angle (snd (collide_mp ec q2 q))) = sin (m_angle (fst (collide_mp ec q q2)))"
    and "cos (m_angle (fst (collide_mp ec q2 q))) = cos (m_angle (snd (collide_mp ec q q2)))"
    and "sin (m_angle (fst (collide_mp ec q2 q))) = sin (m_angle (snd (collide_mp ec q q2)))"
    using ra [of "m_angle q"] ra [of "m_angle q2"]
    by (simp_all add: collide_mp_def Let_def apply_elasticity_mp_def h r
        t_def [symmetric] t'_def [symmetric])
qed

section \<open>Claims\<close>

subsection \<open>C1: coincident centres\<close>

text \<open>
  Claim C1: when the centres of two bodies coincide, pairwise resolution takes a fallback
  axis for the undefined normal instead of raising a division-by-zero fault, so that no
  arithmetic of a tick can raise.

  In \<open>2D_Collisions.py\<close> this is not so. Two particles at the same point with positive
  radii overlap, the normal vector is \<open>(0, 0)\<close>, and \<open>Vector.unit\<close> divides by its
  magnitude: \<open>collide\<close> raises \<open>ZeroDivisionError\<close>, and so does the tick of a world
  that holds the two particles at rest. (\<open>my_physics2.py\<close> takes the direction from
  \<open>atan2\<close> and does not raise there.)
\<close>

theorem collide_coincident_centres_raises:
  "collide ELASTICITY_COEFFICIENT
     \<lparr>p_x = 100, p_y = 100, p_color = (255, 190, 190), p_mass = 25 * pi, p_radius = 5,
      p_speed_x = 0, p_speed_y = 0, p_speed = 0, p_angle = 0\<rparr>
     \<lparr>p_x = 100, p_y = 100, p_color = (255, 180, 180), p_mass = 98 * pi, p_radius = 7,
      p_speed_x = 0, p_speed_y = 0, p_speed = 0, p_angle = 0\<rparr>
   = Inl ZeroDivisionError
   \<and> handle_events ELASTICITY_COEFFICIENT DRAG_COEFFICIENT MOUSE_FLING_COEFFICIENT
       \<lparr>sim_width = 800, sim_height = 800,
        particles =
          [\<lparr>p_x = 100, p_y = 100, p_color = (255, 190, 190), p_mass = 25 * pi, p_radius = 5,
            p_speed_x = 0, p_speed_y = 0, p_speed = 0, p_angle = 0\<rparr>,
           \<lparr>p_x = 100, p_y = 100, p_color = (255, 180, 180), p_mass = 98 * pi, p_radius = 7,
            p_speed_x = 0, p_speed_y = 0, p_speed = 0, p_angle = 0\<rparr>],
        selected_particle = None\<rparr> (0, 0)
   = Inl ZeroDivisionError"
  by (simp add: collide_def is_colliding_def overlap_amount_def unit_def magnitude_def
      hypot_def handle_events_def move_def bounce_def apply_drag_def
      recalculate_speed_components_def upt_rec)

subsection \<open>C2: the positional correction\<close>

text \<open>
  Claim C2: for two overlapping bodies, the positional correction moves them apart along
  the normal by \<open>overlap\<close> in total, so that right after the resolution their centres are
  \<open>a.radius + b.radius\<close> apart.

  \<open>_push_apart\<close> of \<open>2D_Collisions.py\<close> moves each of the two particles by the whole
  overlap. In the scenario of the specification (equal masses 1, radii 5, centres
  \<open>(100, 100)\<close> and \<open>(108, 100)\<close>, overlap 2, approaching at speed 1) the particles end
  at \<open>x = 98\<close> and \<open>x = 110\<close>: 12 apart, not 10.
\<close>

theorem push_apart_doubles_overlap:
  "collide ELASTICITY_COEFFICIENT
     \<lparr>p_x = 100, p_y = 100, p_color = (255, 190, 190), p_mass = 1, p_radius = 5,
      p_speed_x = 1, p_speed_y = 0, p_speed = 1, p_angle = 0\<rparr>
     \<lparr>p_x = 108, p_y = 100, p_color = (255, 190, 190), p_mass = 1, p_radius = 5,
      p_speed_x = - 1, p_speed_y = 0, p_speed = 1, p_angle = pi\<rparr>
   = Inr (\<lparr>p_x = 98, p_y = 100, p_color = (255, 190, 190), p_mass = 1, p_radius = 5,
           p_speed_x = - (8 / 10), p_speed_y = 0, p_speed = 8 / 10, p_angle = pi\<rparr>,
          \<lparr>p_x = 110, p_y = 100, p_color = (255, 190, 190), p_mass = 1, p_radius = 5,
           p_speed_x = 8 / 10, p_speed_y = 0, p_speed = 8 / 10, p_angle = 0\<rparr>)
   \<and> hypot (98 - 110) (100 - 100) = 12"
  by (simp add: collide_def is_colliding_def overlap_amount_def unit_def magnitude_def
      hypot_zero_right hypot_zero_left mul_vec_def mul_num_def add_vec_def set_velocity_def
      apply_elasticity_def recalculate_speed_components_def push_apart_def atan2_def
      ELASTICITY_COEFFICIENT_def Let_def)

text \<open>
  \<open>collide\<close> of \<open>my_physics2.py\<close> moves each particle by half the overlap, and there the
  centres do end exactly the sum of the radii apart.
\<close>

lemma collide_mp_separates:
  assumes "hypot (m_x p - m_x p2) (m_y p - m_y p2) \<le> m_radius p + m_radius p2"
  shows "hypot (m_x (fst (collide_mp ec p p2)) - m_x (snd (collide_mp ec p p2)))
               (m_y (fst (collide_mp ec p p2)) - m_y (snd (collide_mp ec p p2)))
         = m_radius p + m_radius p2"
proof -
  define a where "a = m_x p - m_x p2"
  define b where "b = - (m_y p - m_y p2)"
  define k where "k = m_radius p + m_radius p2 - hypot a b"
  have "hypot a b = hypot (m_x p - m_x p2) (m_y p - m_y p2)"
    unfolding a_def b_def hypot_def by (simp only: power2_minus)
  then have hyp: "hypot a b \<le> m_radius p + m_radius p2"
    using assms by simp
  then have k0: "0 \<le> k" by (simp add: k_def)
  have x: "m_x (fst (collide_mp ec p p2)) - m_x (snd (collide_mp ec p p2))
           = a + cos (atan2 b a) * k"
    using hyp by (simp add: collide_mp_def Let_def apply_elasticity_mp_def a_def b_def k_def)
  have y: "m_y (fst (collide_mp ec p p2)) - m_y (snd (collide_mp ec p p2))
           = - (b + sin (atan2 b a) * k)"
    using hyp by (simp add: collide_mp_def Let_def apply_elasticity_mp_def a_def b_def k_def)
  have "hypot (a + cos (atan2 b a) * k) (- (b + sin (atan2 b a) * k)) = hypot a b + k"
    using hypot_pushed [where a = a and b = b, OF k0] unfolding hypot_def by (simp only: power2_minus)
  then show ?thesis by (simp add: x y k_def)
qed

subsection \<open>C3: a body in a corner\<close>

text \<open>
  Claim C3: a body that overlaps an x-boundary and a y-boundary in the same tick has both
  axes resolved by one boundary reflection.

  \<open>_bounce\<close> of \<open>2D_Collisions.py\<close> is a single chain of \<open>if\<close>/\<open>elif\<close>, top and bottom
  first. A particle of radius 5 at \<open>(3, 4)\<close> with velocity \<open>(-3, -4)\<close> is reflected off
  the top only: it stays at \<open>x = 3\<close> and keeps moving left.
\<close>

theorem bounce_corner_short_circuits:
  "bounce ELASTICITY_COEFFICIENT (800, 800)
     \<lparr>p_x = 3, p_y = 4, p_color = (255, 190, 190), p_mass = 25 * pi, p_radius = 5,
      p_speed_x = - 3, p_speed_y = - 4, p_speed = 5, p_angle = atan2 (- 4) (- 3)\<rparr>
   = \<lparr>p_x = 3, p_y = 6, p_color = (255, 190, 190), p_mass = 25 * pi, p_radius = 5,
      p_speed_x = - (12 / 5), p_speed_y = 16 / 5, p_speed = 4,
      p_angle = - atan2 (- 4) (- 3)\<rparr>"
proof -
  have c: "cos (atan2 (- 4) (- 3)) = - (3 / 5)" and s: "sin (atan2 (- 4) (- 3)) = - (4 / 5)"
    by (simp_all add: cos_atan2 sin_atan2 hypot_3_4)
  show ?thesis
    by (simp add: bounce_def apply_elasticity_def recalculate_speed_components_def Let_def
        ELASTICITY_COEFFICIENT_def c s)
qed

text \<open>\<open>bounce\<close> of \<open>my_physics2.py\<close> tests the two axes one after the other and resolves both.\<close>

lemma bounce_mp_corner:
  assumes "m_x p \<le> m_radius p" and "m_y p \<le> m_radius p"
  shows "bounce_mp ec dims p =
         p\<lparr>m_x := m_x p + 2 * (m_radius p - m_x p),
            m_y := m_y p + 2 * (m_radius p - m_y p),
            m_angle := - (pi - m_angle p),
            m_speed := m_speed p * ec * ec\<rparr>"
  using assms
  by (simp add: bounce_mp_def bounce_x_mp_def bounce_y_mp_def apply_elasticity_mp_def)

subsection \<open>C4: the left-wall scenario\<close>

text \<open>
  Claim C4: a body at \<open>(5, 50)\<close> with radius 5, moving left (angle \<open>\<pi>\<close>) at speed 2 in
  an 800 by 800 window: one boundary reflection turns its angle into \<open>\<pi> - angle\<close>,
  leaves it at \<open>x = 5\<close>, and multiplies its speed by the elasticity coefficient. Both
  scripts do this, each with its own coefficient.
\<close>

theorem bounce_left_wall_scenario:
  "bounce ELASTICITY_COEFFICIENT (800, 800)
     \<lparr>p_x = 5, p_y = 50, p_color = (255, 190, 190), p_mass = 25 * pi, p_radius = 5,
      p_speed_x = cos pi * 2, p_speed_y = sin pi * 2, p_speed = 2, p_angle = pi\<rparr>
   = \<lparr>p_x = 5, p_y = 50, p_color = (255, 190, 190), p_mass = 25 * pi, p_radius = 5,
      p_speed_x = cos (pi - pi) * (2 * ELASTICITY_COEFFICIENT),
      p_speed_y = sin (pi - pi) * (2 * ELASTICITY_COEFFICIENT),
      p_speed = 2 * ELASTICITY_COEFFICIENT, p_angle = pi - pi\<rparr>
   \<and> bounce_mp ELASTICITY_COEFFICIENT_mp (800, 800)
       \<lparr>m_x = 5, m_y = 50, m_radius = 5, m_angle = pi, m_speed = 2\<rparr>
   = \<lparr>m_x = 5, m_y = 50, m_radius = 5, m_angle = pi - pi,
      m_speed = 2 * ELASTICITY_COEFFICIENT_mp\<rparr>"
  by (simp add: bounce_def bounce_mp_def bounce_x_mp_def bounce_y_mp_def
      apply_elasticity_def apply_elasticity_mp_def recalculate_speed_components_def
      ELASTICITY_COEFFICIENT_def)

subsection \<open>C5: selection\<close>

lemma select_loop_none:
  assumes "\<forall>q \<in> set ps. \<not> hypot (fst c - p_x q) (snd c - p_y q) \<le> p_radius q"
  shows "select_loop c ps i sel = sel"
  using assms by (induction ps arbitrary: i) simp_all

lemma select_loop_first:
  assumes "k < length ps"
    and "hypot (fst c - p_x (ps ! k)) (snd c - p_y (ps ! k)) \<le> p_radius (ps ! k)"
    and "\<forall>j < k. \<not> hypot (fst c - p_x (ps ! j)) (snd c - p_y (ps ! j)) \<le> p_radius (ps ! j)"
  shows "select_loop c ps i sel = Some (i + k)"
  using assms
proof (induction ps arbitrary: i k)
  case Nil
  then show ?case by simp
next
  case (Cons q ps)
  show ?case
  proof (cases k)
    case 0
    then show ?thesis using Cons.prems by simp
  next
    case (Suc k')
    have q: "\<not> hypot (fst c - p_x q) (snd c - p_y q) \<le> p_radius q"
      using Cons.prems(3) Suc by (metis nth_Cons_0 zero_less_Suc)
    have "\<forall>j < k'. \<not> hypot (fst c - p_x (ps ! j)) (snd c - p_y (ps ! j)) \<le> p_radius (ps ! j)"
      using Cons.prems(3) Suc by (metis Suc_less_eq nth_Cons_Suc)
    then have "select_loop c ps (Suc i) sel = Some (Suc i + k')"
      using Cons.IH [of k' "Suc i"] Cons.prems(1,2) Suc by simp
    then show ?thesis using q Suc by simp
  qed
qed

text \<open>
  Claim C5: the selection query returns the first body, in list order, whose centre is
  within its radius of the point, returns none when there is no such body, and mutates
  nothing.

  \<open>_select_particle\<close> gives its answer by assigning the attribute \<open>_selected_particle\<close>.
  When no particle contains the point it assigns nothing, so a selection made before is
  still there: the answer is not none.
\<close>

theorem select_particle_keeps_selection_counterexample:
  "selected_particle
     (select_particle
        \<lparr>sim_width = 800, sim_height = 800,
         particles =
           [\<lparr>p_x = 100, p_y = 100, p_color = (255, 190, 190), p_mass = 25 * pi, p_radius = 5,
             p_speed_x = 0, p_speed_y = 0, p_speed = 0, p_angle = 0\<rparr>],
         selected_particle = Some 0\<rparr> (700, 100))
   = Some 0"
  by (simp add: select_particle_def hypot_def)

text \<open>
  Claim C5 as amended, for \<open>_select_particle\<close> of \<open>2D_Collisions.py\<close>: it changes the
  selection and nothing else (no particle, not the window size); when no particle
  contains the point the selection stays as it was; otherwise the selection becomes the
  first particle in list order whose centre is within its radius of the point.
\<close>

theorem select_particle_first_match:
  "particles (select_particle sim c) = particles sim
   \<and> sim_width (select_particle sim c) = sim_width sim
   \<and> sim_height (select_particle sim c) = sim_height sim
   \<and> ((\<forall>q \<in> set (particles sim). \<not> hypot (fst c - p_x q) (snd c - p_y q) \<le> p_radius q)
        \<longrightarrow> selected_particle (select_particle sim c) = selected_particle sim)
   \<and> (\<forall>k < length (particles sim).
         hypot (fst c - p_x (particles sim ! k)) (snd c - p_y (particles sim ! k))
           \<le> p_radius (particles sim ! k)
         \<and> (\<forall>j < k. \<not> hypot (fst c - p_x (particles sim ! j)) (snd c - p_y (particles sim ! j))
                        \<le> p_radius (particles sim ! j))
         \<longrightarrow> selected_particle (select_particle sim c) = Some k)"
  using select_loop_none [of "particles sim" c 0 "selected_particle sim"]
    select_loop_first [of _ "particles sim" c 0 "selected_particle sim"]
  by (simp add: select_particle_def)

theorem select_particle_first_match_witness:
  "5 < hypot (111 - 100) (100 - 100)
   \<and> hypot (111 - 110) (100 - 100) \<le> 5
   \<and> selected_particle
     (select_particle
        \<lparr>sim_width = 800, sim_height = 800,
         particles =
           [\<lparr>p_x = 100, p_y = 100, p_color = (255, 190, 190), p_mass = 25 * pi, p_radius = 5,
             p_speed_x = 0, p_speed_y = 0, p_speed = 0, p_angle = 0\<rparr>,
            \<lparr>p_x = 110, p_y = 100, p_color = (255, 190, 190), p_mass = 25 * pi, p_radius = 5,
             p_speed_x = 0, p_speed_y = 0, p_speed = 0, p_angle = 0\<rparr>,
            \<lparr>p_x = 112, p_y = 100, p_color = (255, 190, 190), p_mass = 25 * pi, p_radius = 5,
             p_speed_x = 0, p_speed_y = 0, p_speed = 0, p_angle = 0\<rparr>],
         selected_particle = None\<rparr> (111, 100))
     = Some 1
   \<and> selected_particle
     (select_particle
        \<lparr>sim_width = 800, sim_height = 800,
         particles =
           [\<lparr>p_x = 100, p_y = 100, p_color = (255, 190, 190), p_mass = 25 * pi, p_radius = 5,
             p_speed_x = 0, p_speed_y = 0, p_speed = 0, p_angle = 0\<rparr>],
         selected_particle = None\<rparr> (111, 100))
     = None"
proof -
  let ?a = "\<lparr>p_x = 100, p_y = 100, p_color = (255, 190, 190), p_mass = 25 * pi, p_radius = 5,
             p_speed_x = 0, p_speed_y = 0, p_speed = 0, p_angle = 0\<rparr>"
  let ?b = "\<lparr>p_x = 110, p_y = 100, p_color = (255, 190, 190), p_mass = 25 * pi, p_radius = 5,
             p_speed_x = 0, p_speed_y = 0, p_speed = 0, p_angle = 0\<rparr>"
  let ?c = "\<lparr>p_x = 112, p_y = 100, p_color = (255, 190, 190), p_mass = 25 * pi, p_radius = 5,
             p_speed_x = 0, p_speed_y = 0, p_speed = 0, p_angle = 0\<rparr>"
  let ?s3 = "\<lparr>sim_width = 800, sim_height = 800, particles = [?a, ?b, ?c],
             selected_particle = None\<rparr>"
  let ?s1 = "\<lparr>sim_width = 800, sim_height = 800, particles = [?a],
             selected_particle = None\<rparr>"
  have pre: "\<forall>j < (1::nat). \<not> hypot (fst (111, 100) - p_x ([?a, ?b, ?c] ! j))
      (snd (111, 100) - 100) \<le> 5"
    by (simp add: hypot_zero_right)
  have hit: "hypot (111 - 110) (100 - 100) \<le> 5"
    by (simp add: hypot_zero_right)
  have miss: "5 < hypot (111 - 100) (100 - 100)"
    by (simp add: hypot_zero_right)
  have "selected_particle (select_particle ?s3 (111, 100)) = Some 1"
    using select_particle_first_match [of ?s3 "(111, 100)"] pre hit
    by (simp add: hypot_zero_right)
  moreover have "selected_particle (select_particle ?s1 (111, 100)) = None"
    using select_particle_first_match [of ?s1 "(111, 100)"]
    by (simp add: hypot_zero_right)
  ultimately show ?thesis using miss hit by simp
qed

text \<open>
  \<open>_select_particle\<close> of \<open>my_physics2.py\<close> lacks the \<open>return\<close> in its loop and ends with the
  last particle that contains the point.
\<close>

lemma select_particle_mp_last_match:
  "selected_particle_mp
     (select_particle_mp
        \<lparr>width_mp = 800, height_mp = 800,
         particles_mp =
           [\<lparr>m_x = 100, m_y = 100, m_radius = 10, m_angle = 0, m_speed = 0\<rparr>,
            \<lparr>m_x = 110, m_y = 100, m_radius = 10, m_angle = 0, m_speed = 0\<rparr>,
            \<lparr>m_x = 112, m_y = 100, m_radius = 10, m_angle = 0, m_speed = 0\<rparr>],
         selected_particle_mp = None\<rparr> (111, 100))
   = Some 2"
  by (simp add: select_particle_mp_def hypot_zero_right)

subsection \<open>C6: momentum\<close>

text \<open>
  Claim C6: with elasticity coefficient 1, the total momentum of two bodies (the sum of
  mass times velocity vector) is the same before and after \<open>collide\<close>. This is
  \<open>collide\<close> of \<open>2D_Collisions.py\<close>, the script that has masses; in real arithmetic the
  two sums are equal. It is stated of the two particles as the call leaves them: a call
  that does not find them overlapping, or that raises, leaves them as they were.
\<close>

theorem collide_conserves_momentum:
  "p_mass (fst (after_collide 1 p p2)) * p_speed_x (fst (after_collide 1 p p2))
     + p_mass (snd (after_collide 1 p p2)) * p_speed_x (snd (after_collide 1 p p2))
   = p_mass p * p_speed_x p + p_mass p2 * p_speed_x p2
   \<and> p_mass (fst (after_collide 1 p p2)) * p_speed_y (fst (after_collide 1 p p2))
     + p_mass (snd (after_collide 1 p p2)) * p_speed_y (snd (after_collide 1 p p2))
   = p_mass p * p_speed_y p + p_mass p2 * p_speed_y p2"
proof (cases "is_colliding p p2 \<and> (p_x p \<noteq> p_x p2 \<or> p_y p \<noteq> p_y p2)
                \<and> p_mass p + p_mass p2 \<noteq> 0")
  case False
  then have "after_collide 1 p p2 = (p, p2)"
    using after_collide_unchanged [of p p2 1] by blast
  then show ?thesis by simp
next
  case True
  then have col: "is_colliding p p2" and apart: "p_x p \<noteq> p_x p2 \<or> p_y p \<noteq> p_y p2"
    and m: "p_mass p + p_mass p2 \<noteq> 0" by simp_all
  define ux where "ux = x_comp (unit_normal p p2)"
  define uy where "uy = y_comp (unit_normal p p2)"
  have u1: "ux\<^sup>2 + uy\<^sup>2 = 1"
    unfolding ux_def uy_def by (rule unit_normal_length [OF apart])
  have un: "unit_normal p p2 = \<lparr>x_comp = ux, y_comp = uy\<rparr>"
    and ut: "unit_tangent p p2 = \<lparr>x_comp = - uy, y_comp = ux\<rparr>"
    unfolding ux_def uy_def by (rule unit_vectors_as_records)+
  note mom = final_vec_momentum [OF u1 m, of "velocity p" "velocity p2"]
  show ?thesis
    using mom
    by (simp add: after_collide_result [OF col apart m] push_apart_speed push_apart_frame
        apply_elasticity_frame set_velocity_frame speed_after_velocity un ut velocity_def)
qed

text \<open>
  The scenario of the specification with coefficient 1: two particles of mass 1 that
  approach each other at speed 1 leave with their velocities exchanged, the momentum
  being 0 before and after.
\<close>

lemma collide_exchanges_velocities:
  "after_collide 1
     \<lparr>p_x = 100, p_y = 100, p_color = (255, 190, 190), p_mass = 1, p_radius = 5,
      p_speed_x = 1, p_speed_y = 0, p_speed = 1, p_angle = 0\<rparr>
     \<lparr>p_x = 108, p_y = 100, p_color = (255, 190, 190), p_mass = 1, p_radius = 5,
      p_speed_x = - 1, p_speed_y = 0, p_speed = 1, p_angle = pi\<rparr>
   = (\<lparr>p_x = 98, p_y = 100, p_color = (255, 190, 190), p_mass = 1, p_radius = 5,
       p_speed_x = - 1, p_speed_y = 0, p_speed = 1, p_angle = pi\<rparr>,
      \<lparr>p_x = 110, p_y = 100, p_color = (255, 190, 190), p_mass = 1, p_radius = 5,
       p_speed_x = 1, p_speed_y = 0, p_speed = 1, p_angle = 0\<rparr>)"
  by (simp add: after_collide_def collide_def is_colliding_def overlap_amount_def unit_def
      magnitude_def hypot_zero_right hypot_zero_left mul_vec_def mul_num_def add_vec_def
      set_velocity_def apply_elasticity_def recalculate_speed_components_def push_apart_def
      atan2_def Let_def)

subsection \<open>C7: symmetry\<close>

text \<open>
  Claim C7: resolving \<open>(a, b)\<close> and resolving \<open>(b, a)\<close> from the same initial states
  leave each body with the same final position and velocity.

  \<open>collide\<close> of \<open>my_physics2.py\<close> takes the direction of the push from
  \<open>atan2(dy, dx)\<close>, which is 0 for two coincident centres in either order: the
  particle that is passed first is the one pushed to the right.
\<close>

theorem collide_mp_coincident_counterexample:
  "m_x (fst (collide_mp ELASTICITY_COEFFICIENT_mp
          \<lparr>m_x = 100, m_y = 100, m_radius = 10, m_angle = 0, m_speed = 1\<rparr>
          \<lparr>m_x = 100, m_y = 100, m_radius = 10, m_angle = pi, m_speed = 1\<rparr>)) = 110
   \<and> m_x (snd (collide_mp ELASTICITY_COEFFICIENT_mp
          \<lparr>m_x = 100, m_y = 100, m_radius = 10, m_angle = pi, m_speed = 1\<rparr>
          \<lparr>m_x = 100, m_y = 100, m_radius = 10, m_angle = 0, m_speed = 1\<rparr>)) = 90"
  by (simp add: collide_mp_def Let_def apply_elasticity_mp_def hypot_def atan2_def)

text \<open>
  Claim C7 as amended: \<open>collide\<close> of \<open>2D_Collisions.py\<close> leaves each of the two
  particles with the same position and the same velocity vector whichever is passed
  first, for every two particles. \<open>collide\<close> of \<open>my_physics2.py\<close> leaves each particle
  with the same position, speed and direction of motion whichever is passed first, for
  every two particles whose centres differ.
\<close>

theorem collide_symmetric:
  "p_x (fst (after_collide ec p2 p)) = p_x (snd (after_collide ec p p2))
   \<and> p_y (fst (after_collide ec p2 p)) = p_y (snd (after_collide ec p p2))
   \<and> p_speed_x (fst (after_collide ec p2 p)) = p_speed_x (snd (after_collide ec p p2))
   \<and> p_speed_y (fst (after_collide ec p2 p)) = p_speed_y (snd (after_collide ec p p2))
   \<and> p_x (snd (after_collide ec p2 p)) = p_x (fst (after_collide ec p p2))
   \<and> p_y (snd (after_collide ec p2 p)) = p_y (fst (after_collide ec p p2))
   \<and> p_speed_x (snd (after_collide ec p2 p)) = p_speed_x (fst (after_collide ec p p2))
   \<and> p_speed_y (snd (after_collide ec p2 p)) = p_speed_y (fst (after_collide ec p p2))
   \<and> (m_x q \<noteq> m_x q2 \<or> m_y q \<noteq> m_y q2 \<longrightarrow>
        m_x (snd (collide_mp ec q2 q)) = m_x (fst (collide_mp ec q q2))
      \<and> m_y (snd (collide_mp ec q2 q)) = m_y (fst (collide_mp ec q q2))
      \<and> m_speed (snd (collide_mp ec q2 q)) = m_speed (fst (collide_mp ec q q2))
      \<and> cos (m_angle (snd (collide_mp ec q2 q))) = cos (m_angle (fst (collide_mp ec q q2)))
      \<and> sin (m_angle (snd (collide_mp ec q2 q))) = sin (m_angle (fst (collide_mp ec q q2)))
      \<and> m_x (fst (collide_mp ec q2 q)) = m_x (snd (collide_mp ec q q2))
      \<and> m_y (fst (collide_mp ec q2 q)) = m_y (snd (collide_mp ec q q2))
      \<and> m_speed (fst (collide_mp ec q2 q)) = m_speed (snd (collide_mp ec q q2))
      \<and> cos (m_angle (fst (collide_mp ec q2 q))) = cos (m_angle (snd (collide_mp ec q q2)))
      \<and> sin (m_angle (fst (collide_mp ec q2 q))) = sin (m_angle (snd (collide_mp ec q q2))))"
proof -
  have mp: "m_x q \<noteq> m_x q2 \<or> m_y q \<noteq> m_y q2 \<longrightarrow>
        m_x (snd (collide_mp ec q2 q)) = m_x (fst (collide_mp ec q q2))
      \<and> m_y (snd (collide_mp ec q2 q)) = m_y (fst (collide_mp ec q q2))
      \<and> m_speed (snd (collide_mp ec q2 q)) = m_speed (fst (collide_mp ec q q2))
      \<and> cos (m_angle (snd (collide_mp ec q2 q))) = cos (m_angle (fst (collide_mp ec q q2)))
      \<and> sin (m_angle (snd (collide_mp ec q2 q))) = sin (m_angle (fst (collide_mp ec q q2)))
      \<and> m_x (fst (collide_mp ec q2 q)) = m_x (snd (collide_mp ec q q2))
      \<and> m_y (fst (collide_mp ec q2 q)) = m_y (snd (collide_mp ec q q2))
      \<and> m_speed (fst (collide_mp ec q2 q)) = m_speed (snd (collide_mp ec q q2))
      \<and> cos (m_angle (fst (collide_mp ec q2 q))) = cos (m_angle (snd (collide_mp ec q q2)))
      \<and> sin (m_angle (fst (collide_mp ec q2 q))) = sin (m_angle (snd (collide_mp ec q q2)))"
    by (intro conjI impI) (rule collide_mp_symmetric, assumption)+
  from after_collide_swap [of ec p2 p] mp show ?thesis by (simp only: simp_thms)
qed

theorem collide_symmetric_witness:
  "(100::real) < 108
   \<and> m_x (fst (collide_mp ELASTICITY_COEFFICIENT_mp
          \<lparr>m_x = 100, m_y = 100, m_radius = 5, m_angle = 0, m_speed = 1\<rparr>
          \<lparr>m_x = 108, m_y = 100, m_radius = 5, m_angle = pi, m_speed = 1\<rparr>)) = 99
   \<and> m_x (snd (collide_mp ELASTICITY_COEFFICIENT_mp
          \<lparr>m_x = 108, m_y = 100, m_radius = 5, m_angle = pi, m_speed = 1\<rparr>
          \<lparr>m_x = 100, m_y = 100, m_radius = 5, m_angle = 0, m_speed = 1\<rparr>)) = 99"
proof -
  let ?q = "\<lparr>m_x = 100, m_y = 100, m_radius = 5, m_angle = 0, m_speed = 1\<rparr>"
  let ?q2 = "\<lparr>m_x = 108, m_y = 100, m_radius = 5, m_angle = pi, m_speed = 1\<rparr>"
  have v: "m_x (fst (collide_mp ELASTICITY_COEFFICIENT_mp ?q ?q2)) = 99"
    by (simp add: collide_mp_def Let_def apply_elasticity_mp_def hypot_zero_right atan2_def)
  have "m_x (snd (collide_mp ELASTICITY_COEFFICIENT_mp ?q2 ?q))
        = m_x (fst (collide_mp ELASTICITY_COEFFICIENT_mp ?q ?q2))"
    using collide_symmetric [where q = ?q and ?q2.0 = ?q2 and ec = ELASTICITY_COEFFICIENT_mp]
    by simp
  then show ?thesis using v by simp
qed

subsection \<open>C8: construction\<close>

text \<open>
  Claim C8: constructing a body with a non-positive radius, a non-positive mass or a
  non-finite numeric input fails with a \<open>ValidationError\<close>.

  Neither constructor tests its arguments: a particle of radius \<open>-5\<close> and mass \<open>-3\<close> is
  constructed. And where construction does fail, with an infinite angle in
  \<open>2D_Collisions.py\<close>, the error is the \<open>ValueError\<close> of \<open>math.cos\<close>.
\<close>

theorem construction_unvalidated_counterexample:
  "Particle_init (100, 100) (- 3) (- 5) 1 (Finite 0) (255, 190, 190)
   = Inr \<lparr>p_x = 100, p_y = 100, p_color = (255, 190, 190), p_mass = - 3, p_radius = - 5,
          p_speed_x = 1, p_speed_y = 0, p_speed = 1, p_angle = 0\<rparr>
   \<and> Particle_init (100, 100) (- 3) (- 5) 1 (Finite 0) (255, 190, 190) \<noteq> Inl ValidationError
   \<and> Particle_init (100, 100) (25 * pi) 5 1 PosInf (255, 190, 190) = Inl ValueError
   \<and> Particle_init (100, 100) (25 * pi) 5 1 PosInf (255, 190, 190) \<noteq> Inl ValidationError"
  by simp

text \<open>
  Claim C8 as amended: construction validates neither radius nor mass and has no
  \<open>ValidationError\<close>. For every finite position, mass, radius, speed and angle, a
  non-positive radius or mass included, it succeeds in both scripts and the body holds
  exactly the values given. With an infinite angle the constructor of
  \<open>2D_Collisions.py\<close> fails with a \<open>ValueError\<close>.
\<close>

theorem construction_succeeds_on_finite_input:
  "Particle_init position mass radius speed (Finite angle) color
   = Inr \<lparr>p_x = fst position, p_y = snd position, p_color = color, p_mass = mass,
          p_radius = radius, p_speed_x = cos angle * speed, p_speed_y = sin angle * speed,
          p_speed = speed, p_angle = angle\<rparr>
   \<and> Particle_init position mass radius speed PosInf color = Inl ValueError
   \<and> Particle_init position mass radius speed NegInf color = Inl ValueError
   \<and> Particle_init_mp position radius angle speed
   = Inr \<lparr>m_x = fst position, m_y = snd position, m_radius = radius,
          m_angle = angle, m_speed = speed\<rparr>"
  by (simp add: Particle_init_mp_def)

subsection \<open>C9: containment in the window\<close>

lemma bounce_position:
  "p_x (bounce ec (w, h) p) =
     (if p_y p \<le> p_radius p then p_x p
      else if p_y p \<ge> h - p_radius p then p_x p
      else if p_x p \<le> p_radius p then p_x p + 2 * (p_radius p - p_x p)
      else if p_x p \<ge> w - p_radius p then p_x p - 2 * (p_x p + p_radius p - w)
      else p_x p)"
  "p_y (bounce ec (w, h) p) =
     (if p_y p \<le> p_radius p then p_y p + 2 * (p_radius p - p_y p)
      else if p_y p \<ge> h - p_radius p then p_y p - 2 * (p_y p + p_radius p - h)
      else p_y p)"
  by (simp_all add: bounce_def Let_def apply_elasticity_frame recalculate_frame)

lemma bounce_mp_position:
  "m_x (bounce_mp ec (w, h) p) =
     (if m_x p \<le> m_radius p then m_x p + 2 * (m_radius p - m_x p)
      else if m_x p \<ge> w - m_radius p then m_x p - 2 * (m_x p + m_radius p - w)
      else m_x p)"
  "m_y (bounce_mp ec (w, h) p) =
     (if m_y p \<le> m_radius p then m_y p + 2 * (m_radius p - m_y p)
      else if m_y p \<ge> h - m_radius p then m_y p - 2 * (m_y p + m_radius p - h)
      else m_y p)"
  by (simp_all add: bounce_mp_def bounce_x_mp_def bounce_y_mp_def apply_elasticity_mp_def)

text \<open>
  Claim C9: after every tick, the centre of every body lies within
  \<open>[radius, dimension - radius]\<close> on both axes.

  In a tick a particle is reflected off the bounds first and collides afterwards, and
  the positional correction of a collision does not look at the bounds. Two particles of
  radius 5 at rest, at \<open>(6, 100)\<close> and \<open>(8, 100)\<close> in the 800 by 800 window, are both
  within the bounds; after one tick the first is at \<open>x = -2\<close>.
\<close>

theorem pushed_out_of_bounds_counterexample:
  "handle_events ELASTICITY_COEFFICIENT DRAG_COEFFICIENT MOUSE_FLING_COEFFICIENT
     \<lparr>sim_width = 800, sim_height = 800,
      particles =
        [\<lparr>p_x = 6, p_y = 100, p_color = (255, 190, 190), p_mass = 25 * pi, p_radius = 5,
          p_speed_x = 0, p_speed_y = 0, p_speed = 0, p_angle = 0\<rparr>,
         \<lparr>p_x = 8, p_y = 100, p_color = (255, 190, 190), p_mass = 25 * pi, p_radius = 5,
          p_speed_x = 0, p_speed_y = 0, p_speed = 0, p_angle = 0\<rparr>],
      selected_particle = None\<rparr> (0, 0)
   = Inr \<lparr>sim_width = 800, sim_height = 800,
      particles =
        [\<lparr>p_x = - 2, p_y = 100, p_color = (255, 190, 190), p_mass = 25 * pi, p_radius = 5,
          p_speed_x = 0, p_speed_y = 0, p_speed = 0, p_angle = 0\<rparr>,
         \<lparr>p_x = 16, p_y = 100, p_color = (255, 190, 190), p_mass = 25 * pi, p_radius = 5,
          p_speed_x = 0, p_speed_y = 0, p_speed = 0, p_angle = 0\<rparr>],
      selected_particle = None\<rparr>"
proof -
  let ?A = "\<lparr>p_x = 6, p_y = 100, p_color = (255, 190, 190), p_mass = 25 * pi, p_radius = 5,
          p_speed_x = 0, p_speed_y = 0, p_speed = 0, p_angle = 0\<rparr>"
  let ?B = "\<lparr>p_x = 8, p_y = 100, p_color = (255, 190, 190), p_mass = 25 * pi, p_radius = 5,
          p_speed_x = 0, p_speed_y = 0, p_speed = 0, p_angle = 0\<rparr>"
  let ?A2 = "\<lparr>p_x = - 2, p_y = 100, p_color = (255, 190, 190), p_mass = 25 * pi, p_radius = 5,
          p_speed_x = 0, p_speed_y = 0, p_speed = 0, p_angle = 0\<rparr>"
  let ?B2 = "\<lparr>p_x = 16, p_y = 100, p_color = (255, 190, 190), p_mass = 25 * pi, p_radius = 5,
          p_speed_x = 0, p_speed_y = 0, p_speed = 0, p_angle = 0\<rparr>"
  have m1: "move ELASTICITY_COEFFICIENT DRAG_COEFFICIENT (800, 800) ?A = ?A"
    by (simp add: move_def bounce_def apply_drag_def apply_elasticity_def
        recalculate_speed_components_def Let_def)
  have c: "collide ELASTICITY_COEFFICIENT ?A ?B = Inr (?A2, ?B2)"
    by (simp add: collide_def is_colliding_def overlap_amount_def unit_def magnitude_def
        hypot_zero_right hypot_zero_left mul_vec_def mul_num_def add_vec_def set_velocity_def
        apply_elasticity_def recalculate_speed_components_def push_apart_def atan2_def
        Let_def)
  have m2: "move ELASTICITY_COEFFICIENT DRAG_COEFFICIENT (800, 800) ?B2 = ?B2"
    by (simp add: move_def bounce_def apply_drag_def apply_elasticity_def
        recalculate_speed_components_def Let_def)
  have "particles_loop ELASTICITY_COEFFICIENT DRAG_COEFFICIENT (800, 800) [0, 1] [?A, ?B]
        = Inr [?A2, ?B2]"
    by (simp add: m1 c m2 upt_rec)
  then show ?thesis
    by (simp add: handle_events_def upt_rec)
qed

text \<open>
  Claim C9 as amended: the boundary reflection by itself restores containment, for a
  body whose centre is beyond \<open>[radius, dimension - radius]\<close> by no more than
  \<open>dimension - 2 * radius\<close>. Precisely, write \<open>near\<close> for
  \<open>[3 * radius - dimension, 2 * dimension - 3 * radius]\<close> on an axis. In
  \<open>my_physics2.py\<close>: when the centre is \<open>near\<close> on both axes. In \<open>2D_Collisions.py\<close>,
  whose \<open>_bounce\<close> reflects on one axis per call, y before x, and takes
  \<open>y = radius\<close> and \<open>y = height - radius\<close> for a bounce: when x is within
  \<open>[radius, width - radius]\<close> and y is \<open>near\<close>, or y is strictly between \<open>radius\<close> and
  \<open>height - radius\<close> and x is \<open>near\<close>. Then right after the reflection the centre is
  within \<open>[radius, dimension - radius]\<close> on both axes. Nothing is said of a body that
  \<open>_bounce\<close> of \<open>2D_Collisions.py\<close> meets outside or touching on both axes, nor of the
  pairwise resolution that follows in the tick.
\<close>

theorem bounce_restores_containment:
  "((p_radius p \<le> p_x p \<and> p_x p \<le> w - p_radius p
       \<and> 3 * p_radius p - h \<le> p_y p \<and> p_y p \<le> 2 * h - 3 * p_radius p)
     \<or> (p_radius p < p_y p \<and> p_y p < h - p_radius p
       \<and> 3 * p_radius p - w \<le> p_x p \<and> p_x p \<le> 2 * w - 3 * p_radius p)
    \<longrightarrow> p_radius p \<le> p_x (bounce ec (w, h) p) \<and> p_x (bounce ec (w, h) p) \<le> w - p_radius p
      \<and> p_radius p \<le> p_y (bounce ec (w, h) p) \<and> p_y (bounce ec (w, h) p) \<le> h - p_radius p)
   \<and> (3 * m_radius q - w \<le> m_x q \<and> m_x q \<le> 2 * w - 3 * m_radius q
       \<and> 3 * m_radius q - h \<le> m_y q \<and> m_y q \<le> 2 * h - 3 * m_radius q
    \<longrightarrow> m_radius q \<le> m_x (bounce_mp ec (w, h) q) \<and> m_x (bounce_mp ec (w, h) q) \<le> w - m_radius q
      \<and> m_radius q \<le> m_y (bounce_mp ec (w, h) q) \<and> m_y (bounce_mp ec (w, h) q) \<le> h - m_radius q)"
  by (simp add: bounce_position bounce_mp_position)

theorem bounce_restores_containment_witness:
  "(5 < (100::real) \<and> (100::real) < 800 - 5 \<and> 3 * 5 - 800 \<le> (3::real)
      \<and> (3::real) \<le> 2 * 800 - 3 * 5)
   \<and> 5 \<le> p_x (bounce ELASTICITY_COEFFICIENT (800, 800)
              \<lparr>p_x = 3, p_y = 100, p_color = (255, 190, 190), p_mass = 25 * pi, p_radius = 5,
               p_speed_x = - 2, p_speed_y = 0, p_speed = 2, p_angle = pi\<rparr>)
   \<and> p_x (bounce ELASTICITY_COEFFICIENT (800, 800)
              \<lparr>p_x = 3, p_y = 100, p_color = (255, 190, 190), p_mass = 25 * pi, p_radius = 5,
               p_speed_x = - 2, p_speed_y = 0, p_speed = 2, p_angle = pi\<rparr>) \<le> 800 - 5
   \<and> (3 * 5 - 800 \<le> (3::real) \<and> (3::real) \<le> 2 * 800 - 3 * 5
      \<and> 3 * 5 - 800 \<le> (4::real) \<and> (4::real) \<le> 2 * 800 - 3 * 5)
   \<and> 5 \<le> m_x (bounce_mp ELASTICITY_COEFFICIENT (800, 800)
              \<lparr>m_x = 3, m_y = 4, m_radius = 5, m_angle = pi, m_speed = 2\<rparr>)
   \<and> 5 \<le> m_y (bounce_mp ELASTICITY_COEFFICIENT (800, 800)
              \<lparr>m_x = 3, m_y = 4, m_radius = 5, m_angle = pi, m_speed = 2\<rparr>)"
  using bounce_restores_containment
    [where p = "\<lparr>p_x = 3, p_y = 100, p_color = (255, 190, 190), p_mass = 25 * pi,
         p_radius = 5, p_speed_x = - 2, p_speed_y = 0, p_speed = 2, p_angle = pi\<rparr>"
       and w = 800 and h = 800 and ec = ELASTICITY_COEFFICIENT
       and q = "\<lparr>m_x = 3, m_y = 4, m_radius = 5, m_angle = pi, m_speed = 2\<rparr>"]
  by simp

subsection \<open>C10: mass and radius\<close>

text \<open>
  Claim C10: no operation on a body during the simulation (the step \<open>move\<close>, \<open>follow\<close>,
  the boundary reflection, the pairwise \<open>collide\<close>) changes its mass or its radius; only
  position and velocity are mutated. A particle of \<open>2D_Collisions.py\<close> has one more
  field, its colour, which therefore stays as well; a particle of \<open>my_physics2.py\<close> has
  no field besides position, radius, angle and speed. For \<open>collide\<close> of
  \<open>2D_Collisions.py\<close> this is stated of the two particles as the call leaves them,
  whether it returns or raises.
\<close>

theorem mass_and_radius_never_assigned:
  "p_mass (move ec dc dims p) = p_mass p \<and> p_radius (move ec dc dims p) = p_radius p
   \<and> p_color (move ec dc dims p) = p_color p
   \<and> p_mass (follow fc p mouse) = p_mass p \<and> p_radius (follow fc p mouse) = p_radius p
   \<and> p_color (follow fc p mouse) = p_color p
   \<and> p_mass (bounce ec dims p) = p_mass p \<and> p_radius (bounce ec dims p) = p_radius p
   \<and> p_color (bounce ec dims p) = p_color p
   \<and> p_mass (fst (after_collide ec p p2)) = p_mass p
   \<and> p_radius (fst (after_collide ec p p2)) = p_radius p
   \<and> p_color (fst (after_collide ec p p2)) = p_color p
   \<and> p_mass (snd (after_collide ec p p2)) = p_mass p2
   \<and> p_radius (snd (after_collide ec p p2)) = p_radius p2
   \<and> p_color (snd (after_collide ec p p2)) = p_color p2
   \<and> m_radius (move_mp dc g q) = m_radius q
   \<and> m_radius (follow_mp sc q mouse) = m_radius q
   \<and> m_radius (bounce_mp ec dims q) = m_radius q
   \<and> m_radius (fst (collide_mp ec q q2)) = m_radius q
   \<and> m_radius (snd (collide_mp ec q q2)) = m_radius q2"
  by (simp only: move_frame follow_frame bounce_frame after_collide_frame mp_frame simp_thms)

end
